theory Spec2Isabelle
  imports Complex_Main "HOL-Library.Word"
begin

unbundle bit_operations_syntax

section \<open>Common data\<close>

text \<open>
  A byte of a file or of a Python byte string: the characters the scripts build with
  \<open>chr\<close> and read with \<open>ord\<close> all lie in 0..255.  \<open>uint\<close> plays the role of
  \<open>ord\<close>; Python's own integers are unbounded and are modelled as \<open>int\<close>.
\<close>

type_synonym byte = "8 word"

datatype py_error =
    AttributeError
  | IndexError
  | RecursionError
  | StructError
  | TypeError
  | KeyError
  | Exit nat
  | LineLengthBeyondData
  | InvalidEOL
  | QuotedBeyondEOL
  | UnquotedBeyondEOL
  | LineNoBeyondEOL
  | NameError

section \<open>The encoder: \<open>ti99_4a_tape_encode.py\<close>\<close>

definition INITIAL_SYNC_LEN :: nat where
  "INITIAL_SYNC_LEN = 768"

definition SYMBOL_LEN :: nat where
  "SYMBOL_LEN = 32"

definition MAX_LEVEL :: int where
  "MAX_LEVEL = 0x7fff"

text \<open>
  The module globals the encoder mutates: the current output \<open>level\<close> and the frames
  written so far to the wave file (\<open>wf.writeframes\<close>), oldest first.  The high-pass
  filter is switched off by the module constant \<open>use_hpf = False\<close>, so \<open>output_write\<close>
  writes the level it is given.
\<close>

record encoder =
  level :: int
  frames :: "int list"

definition encoder_init :: encoder where
  "encoder_init = \<lparr> level = MAX_LEVEL, frames = [] \<rparr>"

definition output_write :: "int \<Rightarrow> encoder \<Rightarrow> encoder" where
  "output_write lv s = s \<lparr> frames := frames s @ [lv] \<rparr>"

text \<open>\<open>for i in xrange(0, int(SYMBOL_LEN / 2)): output_write(level)\<close>\<close>

definition write_half :: "encoder \<Rightarrow> encoder" where
  "write_half s = ((\<lambda>t. output_write (level t) t) ^^ (SYMBOL_LEN div 2)) s"

text \<open>
  \<open>write_byte\<close>: the loop \<open>for j in xrange(0, 8)\<close>, the first argument counting the
  iterations that are left.  \<open>b << 1\<close> is \<open>push_bit 1 b\<close> on an unbounded integer.
\<close>

fun write_byte_loop :: "nat \<Rightarrow> int \<Rightarrow> encoder \<Rightarrow> encoder" where
  "write_byte_loop 0 b s = s"
| "write_byte_loop (Suc n) b s =
     (let s1 = s \<lparr> level := level s * (-1) \<rparr>;
          s2 = write_half s1;
          s3 = (if b AND 0x80 \<noteq> 0 then s2 \<lparr> level := level s2 * (-1) \<rparr> else s2);
          s4 = write_half s3
      in write_byte_loop n (push_bit 1 b) s4)"

definition write_byte :: "int \<Rightarrow> encoder \<Rightarrow> encoder" where
  "write_byte b s = write_byte_loop 8 b s"

text \<open>
  The input file is padded with \<open>0x80\<close> to a multiple of 64 bytes; the number of records
  is \<open>int(math.ceil(len(data) / 64))\<close>, where \<open>/\<close> on two integers is the floor
  division of the Python 2 the script is written in (the padded length is a multiple of
  64, so no remainder is lost).
\<close>

definition pad_data :: "byte list \<Rightarrow> byte list" where
  "pad_data data =
     (let padding = 64 - (length data mod 64)
      in if padding \<noteq> 64 then data @ replicate padding 0x80 else data)"

definition nrecords_of :: "byte list \<Rightarrow> nat" where
  "nrecords_of data = length data div 64"

text \<open>
  One copy of record \<open>i\<close>: eight zero bytes, \<open>0xff\<close>, then the loop over the 64 payload
  bytes that adds each byte to \<open>chksum\<close> (never masked) and writes it, then
  \<open>write_byte(chksum)\<close>.  The script reads \<open>data[i * 64 + j]\<close> only for \<open>i\<close> below
  the record count of the padded data, so the index is always inside \<open>data\<close>.
\<close>

definition payload_step :: "byte list \<Rightarrow> nat \<Rightarrow> nat \<Rightarrow> int \<times> encoder \<Rightarrow> int \<times> encoder" where
  "payload_step data i j cs =
     (let b = uint (data ! (i * 64 + j))
      in (fst cs + b, write_byte b (snd cs)))"

definition write_record_copy :: "byte list \<Rightarrow> nat \<Rightarrow> encoder \<Rightarrow> encoder" where
  "write_record_copy data i s =
     (let s1 = (write_byte 0x00 ^^ 8) s;
          s2 = write_byte 0xff s1;
          cs = fold (payload_step data i) [0..<64] (0, s2)
      in write_byte (fst cs) (snd cs))"

definition write_record :: "byte list \<Rightarrow> nat \<Rightarrow> encoder \<Rightarrow> encoder" where
  "write_record data i s = (write_record_copy data i ^^ 2) s"

text \<open>The whole script: \<open>Inl (Exit 1)\<close> is \<open>exit(1)\<close> on more than 255 records.\<close>

definition encode :: "byte list \<Rightarrow> py_error + encoder" where
  "encode input =
     (let data = pad_data input;
          nrecords = nrecords_of data
      in if nrecords > 0xff then Inl (Exit 1)
         else
           (let s1 = (write_byte 0x00 ^^ INITIAL_SYNC_LEN) encoder_init;
                s2 = write_byte 0xff s1;
                s3 = write_byte (int nrecords) s2;
                s4 = write_byte (int nrecords) s3
            in Inr (fold (write_record data) [0..<nrecords] s4)))"

text \<open>
  The wire format in the specification's words, to compare the script with: a symbol
  flips the level, holds it for half a symbol, flips again for a one bit, and holds for
  the other half; a byte is its eight bits, most significant first.
\<close>

definition spec_symbol :: "bool \<Rightarrow> encoder \<Rightarrow> encoder" where
  "spec_symbol bt s =
     (let l1 = - level s;
          l2 = (if bt then - l1 else l1)
      in s \<lparr> level := l2, frames := frames s @ replicate 16 l1 @ replicate 16 l2 \<rparr>)"

definition spec_bits_msb_first :: "int \<Rightarrow> bool list" where
  "spec_bits_msb_first b = map (\<lambda>j. bit b (7 - j)) [0..<8]"

definition spec_tape_bytes :: "byte list \<Rightarrow> int list" where
  "spec_tape_bytes payload =
     replicate 768 0x00 @ [0xff, 1, 1] @
     concat (replicate 2
       (replicate 8 0x00 @ [0xff] @ map uint payload @ [sum_list (map uint payload) mod 256]))"

section \<open>The decoder's record layer: class \<open>DataProc\<close> of \<open>ti99_4a_tape_decode.py\<close>\<close>

definition RECORD_LEN :: nat where
  "RECORD_LEN = 64"

definition CHKSUM_LEN :: nat where
  "CHKSUM_LEN = 1"

text \<open>What \<open>process_byte\<close> tells the lower layer; Python's \<open>None\<close> is \<open>None\<close>.\<close>

datatype notify = REQUEST_RESYNC | NOTIFY_DONE

text \<open>
  The attributes of a \<open>DataProc\<close> object (\<open>self.__buf\<close> is \<open>dp_buf\<close>, and so on).
  \<open>__rec_primary_buf\<close> and \<open>__rec_primary_error_mask\<close> are not assigned by the
  constructor: they are \<open>None\<close> until \<open>_process_record\<close> first stores a failed primary
  copy, and reading them before that raises \<open>AttributeError\<close>.  \<open>dp_written\<close> lists the
  files \<open>data_complete\<close> has written, by file index, with their contents.
\<close>

record data_proc =
  dp_buf :: "byte list"
  dp_buf_error_mask :: "byte list"
  dp_read_header :: bool
  dp_rec_cnt :: int
  dp_rec_idx :: int
  dp_rec_primary :: bool
  dp_rec_processed :: bool
  dp_data_corrupt :: bool
  dp_data :: "byte list"
  dp_rec_primary_buf :: "byte list option"
  dp_rec_primary_error_mask :: "byte list option"
  dp_file_idx :: nat
  dp_written :: "(nat \<times> byte list) list"

definition dp_clear_state :: "data_proc \<Rightarrow> data_proc" where
  "dp_clear_state s =
     s \<lparr> dp_buf := [], dp_buf_error_mask := [],
         dp_read_header := True, dp_rec_cnt := 0, dp_rec_idx := 0,
         dp_rec_primary := True, dp_rec_processed := False,
         dp_data_corrupt := False, dp_data := [] \<rparr>"

definition DataProc_init :: data_proc where
  "DataProc_init =
     \<lparr> dp_buf = [], dp_buf_error_mask = [],
       dp_read_header = True, dp_rec_cnt = 0, dp_rec_idx = 0,
       dp_rec_primary = True, dp_rec_processed = False,
       dp_data_corrupt = False, dp_data = [],
       dp_rec_primary_buf = None, dp_rec_primary_error_mask = None,
       dp_file_idx = 0, dp_written = [] \<rparr>"

text \<open>
  \<open>__verify_record\<close>: the loop \<open>chksum = (chksum + ord(x)) & 0xff\<close> over \<open>buf[0:-1]\<close>,
  compared with \<open>ord(buf[-1])\<close>.
\<close>

definition verify_record :: "data_proc \<Rightarrow> bool" where
  "verify_record s =
     (if length (dp_buf s) \<noteq> RECORD_LEN + CHKSUM_LEN then False
      else
        (let chksum = fold (\<lambda>x c. (c + uint x) AND 0xff) (butlast (dp_buf s)) 0
         in if chksum \<noteq> uint (last (dp_buf s)) then False else True))"

text \<open>
  \<open>__recover_record\<close>.  After its two early \<open>return False\<close> the method reaches
  \<open>for i in xrange(0, len(self.__buf))\<close>.  The decoder is a Python 3 script (its
  interpreter line; \<open>data_complete\<close> builds \<open>bytes(self.__data, "latin-1")\<close>), and in
  Python 3 the name \<open>xrange\<close> is not defined: evaluating the loop header raises
  \<open>NameError\<close>.  The loop body (the test of the two error masks and the bytewise OR of
  the two copies), the assignment of the reconstructed buffer to \<open>self.__buf\<close> and the
  final \<open>__verify_record\<close> are therefore never reached.
\<close>

definition recover_record :: "data_proc \<Rightarrow> py_error + (bool \<times> data_proc)" where
  "recover_record s =
     (case dp_rec_primary_buf s of
        None \<Rightarrow> Inl AttributeError
      | Some pbuf \<Rightarrow>
          if pbuf = [] then Inr (False, s)
          else if length (dp_buf s) \<noteq> length pbuf then Inr (False, s)
          else Inl NameError)"

text \<open>
  \<open>data_complete\<close>: nothing is written for a corrupt program; otherwise the data goes
  to the file numbered \<open>file_idx\<close>, and \<open>file_idx\<close> is incremented.
\<close>

definition data_complete :: "data_proc \<Rightarrow> data_proc" where
  "data_complete s =
     (if dp_data_corrupt s then s
      else s \<lparr> dp_written := dp_written s @ [(dp_file_idx s, dp_data s)],
               dp_file_idx := dp_file_idx s + 1 \<rparr>)"

text \<open>
  \<open>_process_record\<close>.  \<open>record_data = self.__buf[0:-1]\<close> is taken at the top of the
  method, before any call of \<open>__recover_record\<close>; the branch for the primary copy and
  the branch for the secondary copy are the two definitions below.
\<close>

definition record_primary :: "bool \<Rightarrow> byte list \<Rightarrow> data_proc \<Rightarrow> data_proc" where
  "record_primary record_valid record_data s =
     (let s1 = (if record_valid
                then s \<lparr> dp_data := dp_data s @ record_data, dp_rec_processed := True \<rparr>
                else s \<lparr> dp_rec_primary_buf := Some (dp_buf s),
                         dp_rec_primary_error_mask := Some (dp_buf_error_mask s) \<rparr>)
      in s1 \<lparr> dp_rec_primary := False \<rparr>)"

definition record_secondary_check ::
  "bool \<Rightarrow> byte list \<Rightarrow> data_proc \<Rightarrow> py_error + (bool \<times> data_proc)" where
  "record_secondary_check record_valid record_data s =
     (if \<not> dp_rec_processed s then
        (if record_valid then Inr (False, s \<lparr> dp_data := dp_data s @ record_data \<rparr>)
         else
           (case recover_record s of
              Inl e \<Rightarrow> Inl e
            | Inr (ok, s') \<Rightarrow>
                if \<not> ok then Inr (True, s')
                else Inr (False, s' \<lparr> dp_data := dp_data s' @ record_data \<rparr>)))
      else if record_valid then
        Inr (drop (length (dp_data s) - RECORD_LEN) (dp_data s) \<noteq> record_data, s)
      else Inr (False, s))"

definition record_secondary :: "bool \<Rightarrow> byte list \<Rightarrow> data_proc \<Rightarrow> py_error + data_proc" where
  "record_secondary record_valid record_data s =
     (case record_secondary_check record_valid record_data s of
        Inl e \<Rightarrow> Inl e
      | Inr (record_corrupt, s1) \<Rightarrow>
          (let s2 = (if record_corrupt then s1 \<lparr> dp_data_corrupt := True \<rparr> else s1)
           in Inr (s2 \<lparr> dp_rec_primary := True, dp_rec_processed := False,
                        dp_rec_idx := dp_rec_idx s2 + 1 \<rparr>)))"

definition process_record :: "data_proc \<Rightarrow> py_error + (notify \<times> data_proc)" where
  "process_record s =
     (let record_data = butlast (dp_buf s);
          record_valid = (if dp_buf s \<noteq> [] then verify_record s else False)
      in case (if dp_rec_primary s then Inr (record_primary record_valid record_data s)
               else record_secondary record_valid record_data s) of
           Inl e \<Rightarrow> Inl e
         | Inr s1 \<Rightarrow>
             (let s2 = s1 \<lparr> dp_buf := [], dp_buf_error_mask := [] \<rparr>
              in if dp_rec_idx s2 = dp_rec_cnt s2
                 then Inr (NOTIFY_DONE, dp_clear_state (data_complete s2))
                 else Inr (REQUEST_RESYNC, s2)))"

text \<open>
  \<open>_process_header\<close> acts once two bytes are in \<open>buf\<close>.  It clears \<open>buf\<close> but not
  \<open>buf_error_mask\<close>.
\<close>

definition process_header :: "data_proc \<Rightarrow> notify option \<times> data_proc" where
  "process_header s =
     (if length (dp_buf s) = 2 then
        (if dp_buf s ! 0 \<noteq> dp_buf s ! 1 then (Some NOTIFY_DONE, dp_clear_state s)
         else (Some REQUEST_RESYNC,
               s \<lparr> dp_rec_cnt := uint (dp_buf s ! 0), dp_rec_idx := 0,
                   dp_read_header := False, dp_buf := [] \<rparr>))
      else (None, s))"

definition process_byte ::
  "byte \<Rightarrow> byte \<Rightarrow> data_proc \<Rightarrow> py_error + (notify option \<times> data_proc)" where
  "process_byte val bit_error_mask s =
     (let s1 = s \<lparr> dp_buf := dp_buf s @ [val],
                   dp_buf_error_mask := dp_buf_error_mask s @ [bit_error_mask] \<rparr>
      in if dp_read_header s1 then Inr (process_header s1)
         else if length (dp_buf s1) = RECORD_LEN + CHKSUM_LEN then
           (case process_record s1 of
              Inl e \<Rightarrow> Inl e
            | Inr (r, s2) \<Rightarrow> Inr (Some r, s2))
         else Inr (None, s1))"

definition resync_failed_cb :: "data_proc \<Rightarrow> py_error + (bool \<times> data_proc)" where
  "resync_failed_cb s =
     (if \<not> dp_read_header s then
        (case process_record s of
           Inl e \<Rightarrow> Inl e
         | Inr (r, s1) \<Rightarrow> Inr (r = REQUEST_RESYNC, s1))
      else Inr (False, s))"

definition dp_process_eof :: "data_proc \<Rightarrow> data_proc" where
  "dp_process_eof s =
     (let s1 = (if \<not> dp_read_header s then
                  (if dp_rec_idx s + 1 = dp_rec_cnt s \<and> dp_rec_processed s
                   then data_complete s else s)
                else s)
      in dp_clear_state s1)"

text \<open>Feeding a sequence of \<open>(val, bit_error_mask)\<close> pairs, one \<open>process_byte\<close> each.\<close>

fun process_bytes :: "(byte \<times> byte) list \<Rightarrow> data_proc \<Rightarrow> py_error + data_proc" where
  "process_bytes [] s = Inr s"
| "process_bytes (vm # rest) s =
     (case process_byte (fst vm) (snd vm) s of
        Inl e \<Rightarrow> Inl e
      | Inr (r, s1) \<Rightarrow> process_bytes rest s1)"

section \<open>Decoder configuration profiles\<close>

text \<open>
  Python floats (\<open>symbol_len\<close>, the envelope, the profile's factors) are modelled as
  exact reals: the model follows the arithmetic the code writes and leaves binary
  rounding out.
\<close>

record config =
  use_peak :: bool
  training_threshold :: int
  min_bit_len :: int
  hysteresis :: real
  max_bit_diff :: real
  range_decay :: real
  continues_resync :: bool

definition profile_peak1 :: config where
  "profile_peak1 =
     \<lparr> use_peak = True, training_threshold = 400, min_bit_len = 10,
       hysteresis = 0.50, max_bit_diff = 0.24, range_decay = 0.990,
       continues_resync = True \<rparr>"

definition profile_edge1 :: config where
  "profile_edge1 =
     \<lparr> use_peak = False, training_threshold = 400, min_bit_len = 10,
       hysteresis = 0.80, max_bit_diff = 0.24, range_decay = 0.995,
       continues_resync = True \<rparr>"

definition MAX_INITIAL_SYNC_SYMBOLS :: int where
  "MAX_INITIAL_SYNC_SYMBOLS = 800 * 8"

definition MAX_RECORD_SYNC_SYMBOLS :: int where
  "MAX_RECORD_SYNC_SYMBOLS = 8 * 8"

definition END_OF_SYNC_SYMBOLS :: int where
  "END_OF_SYNC_SYMBOLS = 8"

section \<open>The decoder's bit layer: class \<open>BitProc\<close>, active phase\<close>

text \<open>
  The attributes of a \<open>BitProc\<close> object.  \<open>__resync_start_idx\<close> and
  \<open>__resync_max_symbol\<close> do not exist before the first \<open>_start_resync\<close>.  The
  \<open>DataProc\<close> object the bit layer calls is part of its state.
\<close>

record bit_proc =
  bp_last_edge_idx :: int
  bp_training :: bool
  bp_training_matches :: "int list"
  bp_training_start :: int
  bp_edge_cnt :: int
  bp_resync :: bool
  bp_symbol_len :: real
  bp_edges_within_symbol :: int
  bp_byte :: int
  bp_bit_error_mask :: int
  bp_bit_cnt :: int
  bp_resync_start_idx :: "int option"
  bp_resync_max_symbol :: "int option"
  bp_data_proc :: data_proc

definition bp_clear_state :: "bit_proc \<Rightarrow> bit_proc" where
  "bp_clear_state s =
     s \<lparr> bp_last_edge_idx := 0,
         bp_training := True, bp_training_matches := [], bp_training_start := 0,
         bp_edge_cnt := 0,
         bp_resync := False,
         bp_symbol_len := 0,
         bp_edges_within_symbol := 0,
         bp_byte := 0, bp_bit_error_mask := 0, bp_bit_cnt := 0 \<rparr>"

definition BitProc_init :: "data_proc \<Rightarrow> bit_proc" where
  "BitProc_init dp =
     \<lparr> bp_last_edge_idx = 0,
       bp_training = True, bp_training_matches = [], bp_training_start = 0,
       bp_edge_cnt = 0,
       bp_resync = False,
       bp_symbol_len = 0,
       bp_edges_within_symbol = 0,
       bp_byte = 0, bp_bit_error_mask = 0, bp_bit_cnt = 0,
       bp_resync_start_idx = None, bp_resync_max_symbol = None,
       bp_data_proc = dp \<rparr>"

definition start_resync :: "int \<Rightarrow> int \<Rightarrow> bit_proc \<Rightarrow> bit_proc" where
  "start_resync frame_idx max_symbols s =
     s \<lparr> bp_resync := True,
         bp_resync_start_idx := Some frame_idx,
         bp_resync_max_symbol := Some (max_symbols + END_OF_SYNC_SYMBOLS + 8),
         bp_byte := 0,
         bp_edges_within_symbol := 0 \<rparr>"

text \<open>\<open>int(round(x))\<close> of Python 3: to the nearest integer, a tie to the even one.\<close>

definition py_round :: "real \<Rightarrow> int" where
  "py_round x =
     (let f = \<lfloor>x\<rfloor>; d = x - of_int f
      in if d < 1 / 2 then f
         else if 1 / 2 < d then f + 1
         else if even f then f else f + 1)"

definition expected_idx_of :: "bit_proc \<Rightarrow> int" where
  "expected_idx_of s =
     py_round (of_int (bp_training_start s) + of_int (bp_edge_cnt s + 1) * bp_symbol_len s)"

text \<open>
  The \<open>if self.__bit_cnt == 8\<close> block of \<open>_process_symbol_active\<close>: the byte and its
  error mask (both already masked with \<open>0xff\<close>) go to \<open>DataProc.process_byte\<close>; the
  result is the \<open>recurse\<close> flag and the new state.
\<close>

definition deliver_byte :: "int \<Rightarrow> bool \<Rightarrow> bit_proc \<Rightarrow> py_error + (bool \<times> bit_proc)" where
  "deliver_byte frame_idx recurse s =
     (case process_byte (word_of_int (bp_byte s)) (word_of_int (bp_bit_error_mask s))
             (bp_data_proc s) of
        Inl e \<Rightarrow> Inl e
      | Inr (ret, dp) \<Rightarrow>
          (let s1 = s \<lparr> bp_data_proc := dp \<rparr>;
               rs = (case ret of
                       Some REQUEST_RESYNC \<Rightarrow>
                         (recurse, start_resync frame_idx MAX_RECORD_SYNC_SYMBOLS s1)
                     | Some NOTIFY_DONE \<Rightarrow> (False, bp_clear_state s1)
                     | None \<Rightarrow> (recurse, s1))
           in Inr (fst rs, (snd rs) \<lparr> bp_bit_cnt := 0, bp_byte := 0 \<rparr>)))"

text \<open>
  The part of \<open>_process_symbol_active\<close> after the three-way classification of the edge,
  for the two branches that produce a bit: \<open>bit_error\<close> is 0 and \<open>recurse\<close> false at a
  symbol boundary, 1 and true for a missed symbol.
\<close>

definition active_emit ::
  "config \<Rightarrow> int \<Rightarrow> int \<Rightarrow> int \<Rightarrow> int \<Rightarrow> bool \<Rightarrow> bit_proc \<Rightarrow> py_error + (bool \<times> bit_proc)" where
  "active_emit cfg frame_idx expected_idx bt bit_error recurse s =
     (let s1 = s \<lparr> bp_edge_cnt := bp_edge_cnt s + 1,
                   bp_byte := (push_bit 1 (bp_byte s) OR bt) AND 0xff,
                   bp_bit_error_mask := (push_bit 1 (bp_bit_error_mask s) OR bit_error) AND 0xff,
                   bp_bit_cnt := bp_bit_cnt s + 1 \<rparr>
      in case (if bp_bit_cnt s1 = 8 then deliver_byte frame_idx recurse s1
               else Inr (recurse, s1)) of
           Inl e \<Rightarrow> Inl e
         | Inr (recurse', s2) \<Rightarrow>
             Inr (recurse',
                  if continues_resync cfg
                  then s2 \<lparr> bp_training_start := (if recurse' then expected_idx else frame_idx),
                            bp_edge_cnt := 0 \<rparr>
                  else s2))"

text \<open>One call of \<open>_process_symbol_active\<close> up to its final \<open>if recurse\<close>.\<close>

definition active_step :: "config \<Rightarrow> int \<Rightarrow> bit_proc \<Rightarrow> py_error + (bool \<times> bit_proc)" where
  "active_step cfg frame_idx s =
     (let expected_idx = expected_idx_of s;
          bt = (if bp_edges_within_symbol s mod 2 = 1 then 1 else 0)
      in if \<bar>of_int (frame_idx - expected_idx)\<bar> < bp_symbol_len s * max_bit_diff cfg then
           active_emit cfg frame_idx expected_idx bt 0 False
             (s \<lparr> bp_edges_within_symbol := 0 \<rparr>)
         else if frame_idx < expected_idx then
           Inr (False, s \<lparr> bp_edges_within_symbol := bp_edges_within_symbol s + 1 \<rparr>)
         else
           active_emit cfg frame_idx expected_idx bt 1 True
             (s \<lparr> bp_edges_within_symbol := 0 \<rparr>))"

text \<open>
  \<open>_process_symbol_active\<close> with its recursion on the residual interval.  The first
  argument is the number of nested calls the interpreter still allows; running out of
  them is Python's \<open>RecursionError\<close>.
\<close>

fun process_symbol_active ::
  "config \<Rightarrow> nat \<Rightarrow> int \<Rightarrow> int \<Rightarrow> bit_proc \<Rightarrow> py_error + bit_proc" where
  "process_symbol_active cfg 0 frame_idx level_len s = Inl RecursionError"
| "process_symbol_active cfg (Suc depth) frame_idx level_len s =
     (case active_step cfg frame_idx s of
        Inl e \<Rightarrow> Inl e
      | Inr (recurse, s') \<Rightarrow>
          if recurse
          then process_symbol_active cfg depth frame_idx
                 (py_round (of_int level_len - bp_symbol_len s')) s'
          else Inr s')"

section \<open>The decoder's signal layer: class \<open>SignalProc\<close>\<close>

text \<open>
  An edge handed to \<open>BitProc.process_edge(edge_idx, peak_idx, new_level)\<close>; the edges
  a call of \<open>process_sample\<close> hands over are returned as a list, in order.
\<close>

type_synonym edge_event = "int \<times> int \<times> int"

record signal_proc =
  sp_frame_idx :: int
  sp_range_max :: real
  sp_range_min :: real
  sp_idle :: bool
  sp_level :: int
  sp_peak :: int
  sp_peak_idx :: int

definition SignalProc_init :: signal_proc where
  "SignalProc_init =
     \<lparr> sp_frame_idx = 0, sp_range_max = - 0x10000, sp_range_min = 0x10000,
       sp_idle = True, sp_level = 0, sp_peak = 0, sp_peak_idx = 0 \<rparr>"

text \<open>The envelope after decay and saturation by the new sample.\<close>

definition new_range_max :: "config \<Rightarrow> int \<Rightarrow> signal_proc \<Rightarrow> real" where
  "new_range_max cfg sample s =
     (let m = sp_range_max s * range_decay cfg
      in if of_int sample > m then of_int sample else m)"

definition new_range_min :: "config \<Rightarrow> int \<Rightarrow> signal_proc \<Rightarrow> real" where
  "new_range_min cfg sample s =
     (let m = sp_range_min s * range_decay cfg
      in if of_int sample < m then of_int sample else m)"

definition dyn_range_of :: "config \<Rightarrow> int \<Rightarrow> signal_proc \<Rightarrow> real" where
  "dyn_range_of cfg sample s = new_range_max cfg sample s - new_range_min cfg sample s"

definition threshold_of :: "config \<Rightarrow> int \<Rightarrow> signal_proc \<Rightarrow> real" where
  "threshold_of cfg sample s = new_range_min cfg sample s + dyn_range_of cfg sample s / 2"

text \<open>The peak detection step: the new \<open>(peak, peak_idx)\<close>.\<close>

definition track_peak :: "int \<Rightarrow> signal_proc \<Rightarrow> int \<times> int" where
  "track_peak sample s =
     (if (sp_level s = 1 \<and> sample > sp_peak s) \<or> (sp_level s = 0 \<and> sample < sp_peak s)
      then (sample, sp_frame_idx s)
      else (sp_peak s, sp_peak_idx s))"

text \<open>The level and edge step: the new level and the \<open>edge\<close> flag.\<close>

definition detect_edge :: "config \<Rightarrow> int \<Rightarrow> signal_proc \<Rightarrow> int \<times> bool" where
  "detect_edge cfg sample s =
     (if sp_level s = 0 \<and>
         of_int sample > threshold_of cfg sample s + (dyn_range_of cfg sample s / 2) * hysteresis cfg
      then (1, True)
      else if sp_level s = 1 \<and>
         of_int sample < threshold_of cfg sample s - (dyn_range_of cfg sample s / 2) * hysteresis cfg
      then (0, True)
      else (sp_level s, False))"

definition process_sample :: "config \<Rightarrow> int \<Rightarrow> signal_proc \<Rightarrow> edge_event list \<times> signal_proc" where
  "process_sample cfg sample s =
     (let pk = track_peak sample s;
          le = detect_edge cfg sample s;
          edges = (if snd le then [(sp_frame_idx s, snd pk, fst le)] else [])
      in (edges,
          s \<lparr> sp_range_max := new_range_max cfg sample s,
              sp_range_min := new_range_min cfg sample s,
              sp_peak := fst pk, sp_peak_idx := snd pk,
              sp_level := fst le,
              sp_frame_idx := sp_frame_idx s + 1 \<rparr>))"

section \<open>The BASIC lister: \<open>ti99_4a_list_basic.py\<close>\<close>

subsection \<open>Python's indexing, slicing and \<open>struct\<close> on a byte string\<close>

text \<open>
  \<open>data[i]\<close>: a negative index counts from the end, an index outside the string
  raises \<open>IndexError\<close>; the value is the byte as an integer.
\<close>

definition py_index :: "byte list \<Rightarrow> int \<Rightarrow> py_error + int" where
  "py_index xs i =
     (if 0 \<le> i \<and> i < int (length xs) then Inr (uint (xs ! nat i))
      else if i < 0 \<and> - int (length xs) \<le> i then Inr (uint (xs ! nat (int (length xs) + i)))
      else Inl IndexError)"

text \<open>\<open>data[a:b]\<close>: both bounds are clipped to the string, negative ones count from the end.\<close>

definition py_clip :: "int \<Rightarrow> int \<Rightarrow> int" where
  "py_clip n i = (if i < 0 then max (i + n) 0 else min i n)"

definition py_slice :: "byte list \<Rightarrow> int \<Rightarrow> int \<Rightarrow> byte list" where
  "py_slice xs a b =
     (let n = int (length xs); a' = py_clip n a; b' = py_clip n b
      in take (nat (b' - a')) (drop (nat a') xs))"

text \<open>
  \<open>struct.unpack_from(fmt, buffer, offset)\<close> for a format of \<open>sz\<close> bytes: the bytes
  it reads, or \<open>struct.error\<close> when they do not lie in the buffer.
\<close>

definition struct_unpack_from :: "nat \<Rightarrow> byte list \<Rightarrow> int \<Rightarrow> py_error + byte list" where
  "struct_unpack_from sz buffer offset =
     (let n = int (length buffer)
      in if offset < 0 then
           (if offset + int sz > 0 then Inl StructError
            else if offset + n < 0 then Inl StructError
            else Inr (take sz (drop (nat (offset + n)) buffer)))
         else if n - offset < int sz then Inl StructError
         else Inr (take sz (drop (nat offset) buffer)))"

text \<open>The big-endian unsigned 16-bit field (\<open>>H\<close>) at position \<open>k\<close>, and its signed reading (\<open>>h\<close>).\<close>

definition be16 :: "byte list \<Rightarrow> nat \<Rightarrow> int" where
  "be16 raw k = uint (raw ! k) * 256 + uint (raw ! (k + 1))"

definition signed16 :: "int \<Rightarrow> int" where
  "signed16 v = (if v \<ge> 0x8000 then v - 0x10000 else v)"

text \<open>\<open>bytes.decode(encoding='latin-1')\<close> and \<open>chr\<close> of a byte value.\<close>

definition chr_of :: "int \<Rightarrow> char" where
  "chr_of v = char_of (nat v)"

definition latin1 :: "byte list \<Rightarrow> string" where
  "latin1 bs = map (\<lambda>b. chr_of (uint b)) bs"

text \<open>\<open>str(n)\<close> of an integer, and the field \<open>{:5}\<close> of \<open>str.format\<close>.\<close>

fun digits10 :: "nat \<Rightarrow> string" where
  "digits10 n =
     (if n < 10 then [chr_of (48 + int n)]
      else digits10 (n div 10) @ [chr_of (48 + int (n mod 10))])"

definition str_int :: "int \<Rightarrow> string" where
  "str_int i = (if i < 0 then CHR ''-'' # digits10 (nat (- i)) else digits10 (nat i))"

definition format_line :: "int \<Rightarrow> string \<Rightarrow> string" where
  "format_line number text =
     (let num = str_int number
      in replicate (5 - length num) CHR '' '' @ num @ '' '' @ text)"

text \<open>A Python \<open>dict\<close> as an association list: assignment replaces or appends.\<close>

fun dict_set :: "'k \<Rightarrow> 'v \<Rightarrow> ('k \<times> 'v) list \<Rightarrow> ('k \<times> 'v) list" where
  "dict_set k v [] = [(k, v)]"
| "dict_set k v (kv # rest) =
     (if fst kv = k then (k, v) # rest else kv # dict_set k v rest)"

subsection \<open>Header and line table\<close>

definition HDR_LEN :: nat where
  "HDR_LEN = 8"

record basic_header =
  chkword :: int
  line_table_start :: int
  line_table_end :: int
  memory_end :: int

text \<open>
  \<open>parse_header\<close>: \<open>Inl (Exit 1)\<close> is \<open>exit(1)\<close>; \<open>Inr None\<close> is the \<open>return None\<close>
  after a failed header checksum.
\<close>

definition parse_header :: "byte list \<Rightarrow> py_error + basic_header option" where
  "parse_header data =
     (if length data < HDR_LEN then Inl (Exit 1)
      else
        (case struct_unpack_from 8 data 0 of
           Inl e \<Rightarrow> Inl e
         | Inr raw \<Rightarrow>
             (let cw = be16 raw 0; lts = be16 raw 2; lte = be16 raw 4; mem = be16 raw 6
              in if lts XOR lte \<noteq> cw AND 0x7fff then Inr None
                 else Inr (Some \<lparr> chkword = cw, line_table_start = lts,
                                   line_table_end = lte, memory_end = mem \<rparr>))))"

text \<open>The values of \<open>range(0, lt_len, 4)\<close>: none when \<open>lt_len\<close> is zero or negative.\<close>

definition range_step4 :: "int \<Rightarrow> int list" where
  "range_step4 n = map (\<lambda>k. 4 * int k) [0..<nat ((n + 3) div 4)]"

fun line_table_loop ::
  "int list \<Rightarrow> byte list \<Rightarrow> basic_header \<Rightarrow> int \<Rightarrow> (int \<times> int) list
     \<Rightarrow> py_error + (int \<times> int) list" where
  "line_table_loop [] data header lt_len lt = Inr lt"
| "line_table_loop (i # is) data header lt_len lt =
     (case struct_unpack_from 4 data (int HDR_LEN + lt_len - 4 - i) of
        Inl e \<Rightarrow> Inl e
      | Inr raw \<Rightarrow>
          (let entry0 = be16 raw 0; entry1 = be16 raw 2;
               v = entry1 - (line_table_start header + 1) + int HDR_LEN + lt_len
           in line_table_loop is data header lt_len (dict_set entry0 (v - 1) lt)))"

definition parse_line_table :: "byte list \<Rightarrow> basic_header \<Rightarrow> py_error + (int \<times> int) list" where
  "parse_line_table data header =
     (let lt_len = line_table_start header + 1 - line_table_end header
      in if lt_len + int HDR_LEN > int (length data) then Inl (Exit 1)
         else if lt_len mod 4 \<noteq> 0 then Inl (Exit 1)
         else line_table_loop (range_step4 lt_len) data header lt_len [])"

definition TOKEN_TEXT :: "(int \<times> string) list" where
  "TOKEN_TEXT =
     [(0x81, ''ELSE ''), (0x82, '' :: ''), (0x83, '' ! ''), (0x84, ''IF ''),
      (0x85, ''GO ''), (0x86, ''GOTO ''), (0x87, ''GOSUB ''), (0x88, ''RETURN ''),
      (0x89, ''DEF ''), (0x8a, ''DIM ''), (0x8b, ''END ''), (0x8c, ''FOR ''),
      (0x8d, ''LET ''), (0x8e, ''BREAK ''), (0x8f, ''UNBREAK ''), (0x90, ''TRACE ''),
      (0x91, ''UNTRACE ''), (0x92, ''INPUT ''), (0x93, ''DATA ''), (0x94, ''RESTORE ''),
      (0x95, ''RANDOMIZE ''), (0x96, ''NEXT ''), (0x97, ''READ ''), (0x98, ''STOP ''),
      (0x99, ''DELETE ''), (0x9a, ''REM ''), (0x9b, ''ON ''), (0x9c, ''PRINT ''),
      (0x9d, ''CALL ''), (0x9e, ''OPTION ''), (0x9f, ''OPEN ''), (0xa0, ''CLOSE ''),
      (0xa1, ''SUB ''), (0xa2, ''DISPLAY ''), (0xa3, ''IMAGE ''), (0xa4, ''ACCEPT ''),
      (0xa5, ''ERROR ''), (0xa6, ''WARNING ''), (0xa7, ''SUBEXIT ''), (0xa8, ''SUBEND ''),
      (0xa9, ''RUN ''), (0xaa, ''LINPUT ''), (0xb0, ''THEN ''), (0xb1, ''TO ''),
      (0xb2, ''STEP ''), (0xb3, '', ''), (0xb4, '' ; ''), (0xb5, '' : ''),
      (0xb6, '') ''), (0xb7, ''( ''), (0xb8, ''& ''), (0xba, ''OR ''),
      (0xbb, ''AND ''), (0xbc, ''XOR ''), (0xbd, ''NOT ''), (0xbe, ''= ''),
      (0xbf, ''< ''), (0xc0, ''> ''), (0xc1, ''+ ''), (0xc2, ''- ''),
      (0xc3, ''* ''), (0xc4, ''/ ''), (0xc5, ''^ ''), (0xca, ''EOF ''),
      (0xcb, ''ABS ''), (0xcc, ''ATN ''), (0xcd, ''COS ''), (0xce, ''EXP ''),
      (0xcf, ''INT ''), (0xd0, ''LOG ''), (0xd1, ''SGN ''), (0xd2, ''SIN ''),
      (0xd3, ''SQR ''), (0xd4, ''TAN ''), (0xd5, ''LEN ''), (0xd6, ''CHR$ ''),
      (0xd7, ''RND ''), (0xd8, ''SEG$ ''), (0xd9, ''POS ''), (0xda, ''VAL ''),
      (0xdb, ''STR$ ''), (0xdc, ''ASC ''), (0xdd, ''PI ''), (0xde, ''REC ''),
      (0xdf, ''MAX ''), (0xe0, ''MIN ''), (0xe1, ''RPT$ ''), (0xe8, ''NUMERIC ''),
      (0xe9, ''DIGIT ''), (0xea, ''UALPHA ''), (0xeb, ''SIZE ''), (0xec, ''ALL ''),
      (0xed, ''USING ''), (0xee, ''BEEP ''), (0xef, ''ERASE ''), (0xf0, ''AT ''),
      (0xf1, ''BASE ''), (0xf3, ''VARIABLE ''), (0xf4, ''RELATIVE ''), (0xf5, ''INTERNAL ''),
      (0xf6, ''SEQUENTIAL ''), (0xf7, ''OUTPUT ''), (0xf8, ''UPDATE ''), (0xf9, ''APPEND ''),
      (0xfa, ''FIXED ''), (0xfb, ''PERMANENT ''), (0xfc, ''TAB ''), (0xfd, ''# ''),
      (0xfe, ''VALIDATE '')]"

subsection \<open>Decoding one line\<close>

text \<open>
  The first character of a variable name (\<open>token\<close> as an integer) and the characters
  that continue one (\<open>next_char\<close>, by its code).  In the source's loop condition the
  three comparisons of \<open>token\<close>, an integer, with the strings \<open>'\\'\<close>, \<open>'['\<close> and
  \<open>']'\<close> are always false.
\<close>

definition is_ident_start :: "int \<Rightarrow> bool" where
  "is_ident_start token =
     (0x41 \<le> token \<and> token \<le> 0x5a \<or>
      0x61 \<le> token \<and> token \<le> 0x7a \<or>
      token = 0x5c \<or> token = 0x5b \<or> token = 0x5d \<or>
      token = 0x5f \<or> token = 0x40)"

definition is_ident_next :: "int \<Rightarrow> bool" where
  "is_ident_next c =
     (0x41 \<le> c \<and> c \<le> 0x5a \<or>
      0x61 \<le> c \<and> c \<le> 0x7a \<or>
      0x30 \<le> c \<and> c \<le> 0x39 \<or>
      c = 0x24 \<or> c = 0x5f \<or> c = 0x40)"

text \<open>
  The inner \<open>while\<close> of the identifier branch: it appends \<open>next_char\<close>, stops after a
  \<open>$\<close>, and reads the next byte with \<open>data[addr + off]\<close>.
\<close>

function ident_loop ::
  "byte list \<Rightarrow> int \<Rightarrow> int \<Rightarrow> string \<Rightarrow> int \<Rightarrow> py_error + (string \<times> int)" where
  "ident_loop data addr off line next_char =
     (if is_ident_next next_char then
        (if next_char = 0x24 then Inr (line @ [chr_of next_char], off + 1)
         else
           (case py_index data (addr + (off + 1)) of
              Inl e \<Rightarrow> Inl e
            | Inr c \<Rightarrow> ident_loop data addr (off + 1) (line @ [chr_of next_char]) c))
      else Inr (line, off))"
  by pat_completeness auto
termination
proof (relation "measure (\<lambda>(data, addr, off, line, next_char). nat (int (length data) - (addr + off)))")
  show "wf (measure (\<lambda>(data, addr, off, line, next_char). nat (int (length data) - (addr + off))))"
    by simp
next
  fix data :: "byte list" and addr off :: int and line :: string and next_char c :: int
  assume "py_index data (addr + (off + 1)) = Inr c"
  then have "addr + (off + 1) < int (length data)"
    by (auto simp add: py_index_def Let_def split: if_splits)
  then show "((data, addr, off + 1, line @ [chr_of next_char], c), (data, addr, off, line, next_char))
      \<in> measure (\<lambda>(data, addr, off, line, next_char). nat (int (length data) - (addr + off)))"
    by simp
qed

declare ident_loop.simps [simp del]

text \<open>
  The \<open>0xc7\<close> and \<open>0xc8\<close> branches: a length byte and that many literal bytes; \<open>err\<close>
  is the exception of the branch, \<open>quote\<close> what goes before the text and \<open>close\<close>
  what goes after it.
\<close>

definition string_argument ::
  "py_error \<Rightarrow> string \<Rightarrow> string \<Rightarrow> byte list \<Rightarrow> int \<Rightarrow> int \<Rightarrow> int \<Rightarrow> string
     \<Rightarrow> py_error + (string \<times> int)" where
  "string_argument err quote close data addr line_len off line =
     (if off + 1 > line_len then Inl err
      else
        (case py_index data (addr + off) of
           Inl e \<Rightarrow> Inl e
         | Inr arg_len \<Rightarrow>
             (let off2 = off + 1
              in if off2 + arg_len > line_len then Inl err
                 else Inr (line @ quote @
                             latin1 (py_slice data (addr + off2) (addr + off2 + arg_len)) @ close,
                           off2 + arg_len))))"

text \<open>
  One turn of the \<open>while off < line_len\<close> loop of \<open>decode_line\<close>, from reading the
  token at \<open>off0\<close>: the new line text and the new offset.  The source's chain of
  \<open>elif token == ...\<close> tests compares with pairwise different constants, so the
  fixed-text tokens are looked up in \<open>TOKEN_TEXT\<close>; \<open>0x83\<close> and \<open>0x9a\<close> then take
  the rest of the line as text.  In the last branch the source prints the text decoded
  so far (a diagnostic, not a line of the listing) and then evaluates
  \<open>data[addr:addr+line_len].encode('hex')\<close>.  The script runs under Python 3 only (it
  computes with \<open>data[addr]\<close> as an integer), where \<open>data\<close> is a \<open>bytes\<close> object
  and has no \<open>encode\<close>: the call raises \<open>AttributeError\<close>, and the
  \<open>raise DecodeException("Invalid token ...")\<close> on the next line is never reached.
\<close>

definition decode_token ::
  "byte list \<Rightarrow> int \<Rightarrow> int \<Rightarrow> int \<Rightarrow> string \<Rightarrow> py_error + (string \<times> int)" where
  "decode_token data addr line_len off0 line =
     (case py_index data (addr + off0) of
        Inl e \<Rightarrow> Inl e
      | Inr token \<Rightarrow>
          (let off = off0 + 1
           in case map_of TOKEN_TEXT token of
                Some txt \<Rightarrow>
                  if token = 0x83 \<or> token = 0x9a
                  then Inr (line @ txt @ latin1 (py_slice data (addr + off) (addr + line_len)),
                            line_len)
                  else Inr (line @ txt, off)
              | None \<Rightarrow>
                  if token = 0xc7 then
                    string_argument QuotedBeyondEOL [CHR 0x22] [CHR 0x22, CHR '' ''] data addr line_len off line
                  else if token = 0xc8 then
                    string_argument UnquotedBeyondEOL [] [CHR '' ''] data addr line_len off line
                  else if token = 0xc9 then
                    (if off + 2 > line_len then Inl LineNoBeyondEOL
                     else
                       (case struct_unpack_from 2 data (addr + off) of
                          Inl e \<Rightarrow> Inl e
                        | Inr raw \<Rightarrow> Inr (line @ str_int (signed16 (be16 raw 0)), off + 2)))
                  else if is_ident_start token then
                    (case py_index data (addr + off) of
                       Inl e \<Rightarrow> Inl e
                     | Inr next_char \<Rightarrow>
                         (case ident_loop data addr off (line @ [chr_of token]) next_char of
                            Inl e \<Rightarrow> Inl e
                          | Inr (line', off') \<Rightarrow> Inr (line' @ [CHR '' ''], off')))
                  else Inl AttributeError))"

lemma py_index_nonneg: "py_index data i = Inr v \<Longrightarrow> 0 \<le> v"
  by (auto simp add: py_index_def Let_def split: if_splits)

lemma ident_loop_off:
  "ident_loop data addr off line next_char = Inr (line', off') \<Longrightarrow> off \<le> off'"
proof (induction data addr off line next_char rule: ident_loop.induct)
  case (1 data addr off line next_char)
  note eq = ident_loop.simps [of data addr off line next_char]
  show ?case
  proof (cases "is_ident_next next_char")
    case False
    with "1.prems" eq show ?thesis by simp
  next
    case ident: True
    show ?thesis
    proof (cases "next_char = 0x24")
      case True
      with ident "1.prems" eq show ?thesis by simp
    next
      case False
      show ?thesis
      proof (cases "py_index data (addr + (off + 1))")
        case (Inl e)
        with ident False "1.prems" eq show ?thesis by simp
      next
        case (Inr c)
        with ident False "1.prems" eq
        have "ident_loop data addr (off + 1) (line @ [chr_of next_char]) c = Inr (line', off')"
          by simp
        with ident False Inr have "off + 1 \<le> off'"
          by (rule "1.IH")
        then show ?thesis by simp
      qed
    qed
  qed
qed

lemma string_argument_off:
  assumes "string_argument err quote close data addr line_len off line = Inr (line', off')"
  shows "off < off'"
proof (cases "py_index data (addr + off)")
  case (Inl e)
  with assms show ?thesis
    by (simp add: string_argument_def split: if_splits)
next
  case (Inr arg_len)
  then have "0 \<le> arg_len" by (rule py_index_nonneg)
  with assms Inr show ?thesis
    by (simp add: string_argument_def Let_def split: if_splits)
qed

lemma decode_token_off:
  assumes "decode_token data addr line_len off line = Inr (line', off')" and "off < line_len"
  shows "off < off'"
proof (cases "py_index data (addr + off)")
  case (Inl e)
  with assms show ?thesis by (simp add: decode_token_def)
next
  case tok: (Inr token)
  show ?thesis
  proof (cases "map_of TOKEN_TEXT token")
    case (Some tx)
    with assms tok show ?thesis
      by (simp add: decode_token_def Let_def split: if_splits)
  next
    case None
    note unf = decode_token_def [of data addr line_len off line]
    show ?thesis
    proof (cases "token = 0xc7 \<or> token = 0xc8")
      case True
      with assms tok None show ?thesis
        unfolding unf by (auto simp add: Let_def dest!: string_argument_off)
    next
      case nostr: False
      show ?thesis
      proof (cases "token = 0xc9")
        case True
        with assms tok None show ?thesis
          unfolding unf by (auto simp add: Let_def split: if_splits sum.splits)
      next
        case False
        with nostr assms tok None
        have start: "is_ident_start token"
          unfolding unf by (auto simp add: Let_def split: if_splits)
        show ?thesis
        proof (cases "py_index data (addr + (off + 1))")
          case (Inl e)
          with nostr False start assms tok None show ?thesis
            unfolding unf by (simp add: Let_def)
        next
          case nxt: (Inr next_char)
          show ?thesis
          proof (cases "ident_loop data addr (off + 1) (line @ [chr_of token]) next_char")
            case (Inl e)
            with nxt nostr False start assms tok None show ?thesis
              unfolding unf by (simp add: Let_def)
          next
            case (Inr r)
            obtain l o' where r: "r = (l, o')" by (cases r)
            with Inr have "off + 1 \<le> o'" by (auto dest: ident_loop_off)
            with r Inr nxt nostr False start assms tok None show ?thesis
              unfolding unf by (simp add: Let_def)
          qed
        qed
      qed
    qed
  qed
qed

text \<open>The \<open>while off < line_len\<close> loop and \<open>decode_line\<close> itself.\<close>

function decode_loop ::
  "byte list \<Rightarrow> int \<Rightarrow> int \<Rightarrow> int \<Rightarrow> string \<Rightarrow> py_error + string" where
  "decode_loop data addr line_len off line =
     (if off < line_len then
        (case decode_token data addr line_len off line of
           Inl e \<Rightarrow> Inl e
         | Inr (line', off') \<Rightarrow> decode_loop data addr line_len off' line')
      else Inr line)"
  by pat_completeness auto
termination
proof (relation "measure (\<lambda>(data, addr, line_len, off, line). nat (line_len - off))")
  show "wf (measure (\<lambda>(data, addr, line_len, off, line). nat (line_len - off)))"
    by simp
next
  fix data :: "byte list" and addr line_len off :: int and line :: string
    and x :: "string \<times> int" and line' :: string and off' :: int
  assume "off < line_len" and "decode_token data addr line_len off line = Inr x"
    and "(line', off') = x"
  then have "off < off'"
    using decode_token_off [of data addr line_len off line line' off'] by simp
  with \<open>off < line_len\<close>
  show "((data, addr, line_len, off', line'), (data, addr, line_len, off, line))
      \<in> measure (\<lambda>(data, addr, line_len, off, line). nat (line_len - off))"
    by simp
qed

declare decode_loop.simps [simp del]

definition decode_line :: "byte list \<Rightarrow> int \<Rightarrow> py_error + string" where
  "decode_line data addr =
     (case py_index data addr of
        Inl e \<Rightarrow> Inl e
      | Inr line_len \<Rightarrow>
          if addr + line_len \<ge> int (length data) then Inl LineLengthBeyondData
          else
            (case py_index data (addr + line_len) of
               Inl e \<Rightarrow> Inl e
             | Inr eol \<Rightarrow>
                 if eol \<noteq> 0 then Inl InvalidEOL
                 else decode_loop data addr line_len 1 []))"

subsection \<open>The listing\<close>

text \<open>
  The loop \<open>for line in sorted(lt): print("{:5} {}".format(line, decode_line(data,
  lt[line])))\<close>: the lines printed, in order, and the exception that ended the loop, if
  one did.  Nothing in the script catches an exception of \<open>decode_line\<close>.
\<close>

fun list_lines ::
  "byte list \<Rightarrow> (int \<times> int) list \<Rightarrow> int list \<Rightarrow> string list \<times> py_error option" where
  "list_lines data lt [] = ([], None)"
| "list_lines data lt (number # rest) =
     (case map_of lt number of
        None \<Rightarrow> ([], Some KeyError)
      | Some addr \<Rightarrow>
          (case decode_line data addr of
             Inl e \<Rightarrow> ([], Some e)
           | Inr body \<Rightarrow>
               (let r = list_lines data lt rest
                in (format_line number body # fst r, snd r))))"

definition list_basic :: "byte list \<Rightarrow> string list \<times> py_error option" where
  "list_basic data =
     (case parse_header data of
        Inl e \<Rightarrow> ([], Some e)
      | Inr None \<Rightarrow> ([], Some TypeError)
      | Inr (Some header) \<Rightarrow>
          (case parse_line_table data header of
             Inl e \<Rightarrow> ([], Some e)
           | Inr lt \<Rightarrow> list_lines data lt (sort (map fst lt))))"

subsection \<open>Sample images\<close>

text \<open>
  An eight-byte image whose header passes the checksum and gives a line table of length
  zero, one that gives length \<open>-4\<close>, and an image with the two lines 10 and 20, where
  the body of line 10 is the single byte \<open>0xff\<close> and the body of line 20 is \<open>END\<close>.
\<close>

definition image_empty_table :: "byte list" where
  "image_empty_table = [0x00, 0x0f, 0x37, 0xf7, 0x37, 0xf8, 0x00, 0x00]"

definition image_negative_table :: "byte list" where
  "image_negative_table = [0x00, 0x0b, 0x37, 0xf7, 0x37, 0xfc, 0x00, 0x00]"

definition image_bad_line_10 :: "byte list" where
  "image_bad_line_10 =
     [0x00, 0x07, 0x37, 0xf7, 0x37, 0xf0, 0x00, 0x00,
      0x00, 0x0a, 0x37, 0xf9,
      0x00, 0x14, 0x37, 0xfc,
      0x02, 0xff, 0x00,
      0x02, 0x8b, 0x00]"

text \<open>
  An image with the three lines 10, 20 and 30: the body of line 10 is \<open>END\<close>, the body
  of line 20 is the single byte \<open>0xff\<close>, and the body of line 30 is \<open>STOP\<close>.
\<close>

definition image_bad_line_20 :: "byte list" where
  "image_bad_line_20 =
     [0x00, 0x1b, 0x37, 0xf7, 0x37, 0xec, 0x00, 0x00,
      0x00, 0x0a, 0x37, 0xf9,
      0x00, 0x14, 0x37, 0xfc,
      0x00, 0x1e, 0x37, 0xff,
      0x02, 0x8b, 0x00,
      0x02, 0xff, 0x00,
      0x02, 0x98, 0x00]"

section \<open>Sample decoder states\<close>

text \<open>
  A record layer that has read the first header byte 3, and a bit layer in the active
  phase (symbol length 32, clock anchored at frame 0) that has collected the seven bits
  \<open>0000010\<close> of the next byte on top of it.
\<close>

definition dp_after_first_header_byte :: data_proc where
  "dp_after_first_header_byte = DataProc_init \<lparr> dp_buf := [0x03], dp_buf_error_mask := [0x00] \<rparr>"

definition bp_before_second_header_byte :: bit_proc where
  "bp_before_second_header_byte =
     (BitProc_init dp_after_first_header_byte)
       \<lparr> bp_training := False, bp_symbol_len := 32, bp_byte := 2, bp_bit_cnt := 7 \<rparr>"

text \<open>
  A record layer waiting for the first byte of the primary copy of its only record, and
  a bit layer in the active phase (symbol length 32, clock anchored at frame 0) that
  has collected seven zero bits and has seen one edge inside the current symbol (at
  frame 16, say).  The next edge arrives at frame 48: the boundary edge expected at
  frame 32 is missing.
\<close>

definition dp_in_record :: data_proc where
  "dp_in_record = DataProc_init \<lparr> dp_read_header := False, dp_rec_cnt := 1 \<rparr>"

definition bp_edge_within_symbol :: bit_proc where
  "bp_edge_within_symbol =
     (BitProc_init dp_in_record)
       \<lparr> bp_last_edge_idx := 16, bp_training := False, bp_symbol_len := 32,
         bp_edges_within_symbol := 1, bp_bit_cnt := 7 \<rparr>"

text \<open>
  The bytes of a program of one record whose payload is 64 times \<open>0xff\<close> (checksum
  \<open>0xc0\<close>), as the bit layer hands them over with their error masks: the two header
  bytes; copy a, in which the top bit of byte 0 was missed (value \<open>0x7f\<close>, mask
  \<open>0x80\<close>); copy b, in which the top bit of byte 1 was missed.
\<close>

definition tape_header :: "(byte \<times> byte) list" where
  "tape_header = [(0x01, 0x00), (0x01, 0x00)]"

definition tape_copy_a :: "(byte \<times> byte) list" where
  "tape_copy_a = (0x7f, 0x80) # replicate 63 (0xff, 0x00) @ [(0xc0, 0x00)]"

definition tape_copy_b :: "(byte \<times> byte) list" where
  "tape_copy_b = (0xff, 0x00) # (0x7f, 0x80) # replicate 62 (0xff, 0x00) @ [(0xc0, 0x00)]"

section \<open>Properties of the encoder\<close>

lemma write_half_eq:
  "write_half s = s \<lparr> frames := frames s @ replicate 16 (level s) \<rparr>"
proof -
  have "((\<lambda>t. output_write (level t) t) ^^ n) s = s \<lparr> frames := frames s @ replicate n (level s) \<rparr>" for n
    by (induction n) (simp_all add: output_write_def replicate_append_same)
  then show ?thesis by (simp add: write_half_def SYMBOL_LEN_def)
qed

lemma write_byte_loop_step:
  "write_byte_loop (Suc n) b s = write_byte_loop n (push_bit 1 b) (spec_symbol (bit b 7) s)"
proof -
  have "(b AND 0x80 \<noteq> 0) = bit b 7"
    using and_exp_eq_0_iff_not_bit [of b 7] by simp
  then show ?thesis
    by (simp add: write_half_eq spec_symbol_def Let_def)
qed

lemma write_byte_loop_bits:
  "n \<le> 8 \<Longrightarrow> write_byte_loop n b s = fold spec_symbol (map (\<lambda>j. bit b (7 - j)) [0..<n]) s"
proof (induction n arbitrary: b s)
  case 0
  then show ?case by simp
next
  case (Suc n)
  have shifted: "bit (push_bit 1 b) (7 - j) = bit b (7 - Suc j)" if "j < n" for j
  proof -
    from that Suc.prems have "7 - j = Suc (7 - Suc j)" by simp
    then show ?thesis by (simp add: bit_Suc)
  qed
  have meq: "map (\<lambda>j. bit (push_bit 1 b) (7 - j)) [0..<n] = map (\<lambda>j. bit b (7 - Suc j)) [0..<n]"
  proof (rule map_cong [OF refl])
    fix j assume "j \<in> set [0..<n]"
    then have "j < n" by simp
    then show "bit (push_bit 1 b) (7 - j) = bit b (7 - Suc j)" by (rule shifted)
  qed
  have "n \<le> 8" using Suc.prems by simp
  then have ih: "write_byte_loop n (push_bit 1 b) (spec_symbol (bit b 7) s) =
      fold spec_symbol (map (\<lambda>j. bit (push_bit 1 b) (7 - j)) [0..<n]) (spec_symbol (bit b 7) s)"
    by (rule Suc.IH)
  have tl: "write_byte_loop n (push_bit 1 b) (spec_symbol (bit b 7) s) =
      fold spec_symbol (map (\<lambda>j. bit b (7 - Suc j)) [0..<n]) (spec_symbol (bit b 7) s)"
    by (simp only: ih meq)
  have "[0..<Suc n] = 0 # map Suc [0..<n]"
    by (simp only: map_Suc_upt upt_conv_Cons [of 0 "Suc n"] zero_less_Suc if_True)
  then have "map (\<lambda>j. bit b (7 - j)) [0..<Suc n] = bit b 7 # map (\<lambda>j. bit b (7 - Suc j)) [0..<n]"
    by (simp add: comp_def del: upt_Suc)
  then show ?case
    by (simp only: write_byte_loop_step tl fold_simps)
qed

lemma write_byte_bits: "write_byte b s = fold spec_symbol (spec_bits_msb_first b) s"
  by (simp add: write_byte_def spec_bits_msb_first_def write_byte_loop_bits)

lemma spec_bits_mod_256: "spec_bits_msb_first (b mod 256) = spec_bits_msb_first b"
proof -
  have "b mod 256 = take_bit 8 b" by (simp add: take_bit_eq_mod)
  then show ?thesis by (auto simp add: spec_bits_msb_first_def bit_take_bit_iff)
qed

lemma write_byte_mod_256: "write_byte (b mod 256) s = write_byte b s"
  by (simp add: write_byte_bits spec_bits_mod_256)

lemma write_byte_length: "length (frames (write_byte b s)) = length (frames s) + 256"
proof -
  have sym: "length (frames (spec_symbol bt t)) = length (frames t) + 32" for bt t
    by (simp add: spec_symbol_def Let_def)
  have "length (frames (fold spec_symbol bs t)) = length (frames t) + 32 * length bs" for bs t
    by (induction bs arbitrary: t) (simp_all add: sym)
  then show ?thesis
    by (simp add: write_byte_bits spec_bits_msb_first_def)
qed

lemma payload_fold:
  "fold (payload_step data i) js (c, s) =
     (c + sum_list (map (\<lambda>j. uint (data ! (i * 64 + j))) js),
      fold write_byte (map (\<lambda>j. uint (data ! (i * 64 + j))) js) s)"
  by (induction js arbitrary: c s) (simp_all add: payload_step_def Let_def)

lemma write_record_copy_eq:
  "write_record_copy data i s =
     write_byte (sum_list (map (\<lambda>j. uint (data ! (i * 64 + j))) [0..<64]) mod 256)
       (fold write_byte (map (\<lambda>j. uint (data ! (i * 64 + j))) [0..<64])
          (write_byte 0xff ((write_byte 0x00 ^^ 8) s)))"
  by (simp only: write_record_copy_def Let_def payload_fold fst_conv snd_conv
      write_byte_mod_256 add_0)

text \<open>
  C10.  For every integer \<open>b\<close> (so for every non-negative one), \<open>write_byte(b)\<close> leaves
  the encoder in the same state, with the same frames written, as
  \<open>write_byte(b mod 256)\<close>, and it writes exactly 256 frames.  In particular, in the
  record loop the checksum is accumulated as the plain sum of the 64 bytes, and the
  final \<open>write_byte(chksum)\<close> writes what \<open>write_byte\<close> of that sum modulo 256 writes.
\<close>

theorem write_byte_depends_on_low_byte:
  "write_byte b s = write_byte (b mod 256) s \<and>
   length (frames (write_byte b s)) = length (frames s) + 256 \<and>
   fst (fold (payload_step data i) [0..<64] (0, s)) =
     sum_list (map (\<lambda>j. uint (data ! (i * 64 + j))) [0..<64]) \<and>
   write_byte (fst (fold (payload_step data i) [0..<64] (0, s))) t =
     write_byte (sum_list (map (\<lambda>j. uint (data ! (i * 64 + j))) [0..<64]) mod 256) t"
proof (intro conjI)
  show "write_byte b s = write_byte (b mod 256) s"
    by (simp only: write_byte_mod_256)
  show "length (frames (write_byte b s)) = length (frames s) + 256"
    by (rule write_byte_length)
  show acc: "fst (fold (payload_step data i) [0..<64] (0, s)) =
      sum_list (map (\<lambda>j. uint (data ! (i * 64 + j))) [0..<64])"
    by (simp only: payload_fold fst_conv add_0)
  show "write_byte (fst (fold (payload_step data i) [0..<64] (0, s))) t =
      write_byte (sum_list (map (\<lambda>j. uint (data ! (i * 64 + j))) [0..<64]) mod 256) t"
    by (simp only: acc write_byte_mod_256)
qed




lemma payload_of_first_record:
  "length P = 64 \<Longrightarrow> map (\<lambda>j. uint (P ! (0 * 64 + j))) [0..<64] = map uint P"
proof -
  assume len: "length P = 64"
  have "map (\<lambda>j. uint (P ! (0 * 64 + j))) [0..<64] = map uint (map ((!) P) [0..<length P])"
    by (simp add: len)
  then show ?thesis by (simp only: map_nth)
qed



lemma funpow_fold_replicate: "(f x ^^ n) s = fold f (replicate n x) s"
  by (induction n arbitrary: s) (simp_all add: funpow_swap1)

lemma write_bytes_length:
  "length (frames (fold write_byte bs s)) = length (frames s) + 256 * length bs"
  by (induction bs arbitrary: s) (simp_all add: write_byte_length)

lemma write_record_copy_bytes:
  "length P = 64 \<Longrightarrow>
   write_record_copy P 0 s =
     fold write_byte (replicate 8 0x00 @ [0xff] @ map uint P @ [sum_list (map uint P) mod 256]) s"
  by (simp only: write_record_copy_eq payload_of_first_record funpow_fold_replicate fold_append
      fold_simps comp_def id_def)

lemma spec_tape_bytes_length: "length P = 64 \<Longrightarrow> length (spec_tape_bytes P) = 919"
  by (simp add: spec_tape_bytes_def numeral_2_eq_2)

lemma encode_one_record:
  "length P = 64 \<Longrightarrow> encode P = Inr (fold write_byte (spec_tape_bytes P) encoder_init)"
proof -
  assume len: "length P = 64"
  have pad: "pad_data P = P" by (simp add: pad_data_def len)
  have n: "nrecords_of P = 1" by (simp add: nrecords_of_def len)
  have rec: "write_record P 0 t =
      fold write_byte (concat (replicate 2
        (replicate 8 0x00 @ [0xff] @ map uint P @ [sum_list (map uint P) mod 256]))) t" for t
    by (simp add: write_record_def numeral_2_eq_2 write_record_copy_bytes [OF len])
  have e1: "encode P =
      Inr (write_record P 0 (write_byte 1 (write_byte 1 (write_byte 0xff
             ((write_byte 0x00 ^^ 768) encoder_init)))))"
    unfolding encode_def pad n Let_def INITIAL_SYNC_LEN_def by simp
  have e2: "fold write_byte (spec_tape_bytes P) encoder_init =
      write_record P 0 (write_byte 1 (write_byte 1 (write_byte 0xff
             ((write_byte 0x00 ^^ 768) encoder_init))))"
    unfolding spec_tape_bytes_def rec funpow_fold_replicate
    by (simp only: fold_append fold_simps comp_def)
  show ?thesis by (simp only: e1 e2)
qed

text \<open>
  C6.  For a 64-byte payload the encoder writes one record: its calls of \<open>write_byte\<close>
  are, in order, 768 zero bytes, \<open>0xff\<close>, the record count 1 twice, and two copies of
  eight zero bytes, \<open>0xff\<close>, the payload and the checksum byte; each byte is written
  most significant bit first, 32 frames a bit, and the output has
  \<open>(768 + 1 + 1 + 1 + 2 * (8 + 1 + 64 + 1)) * 8 * 32\<close> frames.
\<close>

theorem encode_64_byte_payload:
  "length P = 64 \<Longrightarrow>
     nrecords_of (pad_data P) = 1 \<and>
     encode P = Inr (fold write_byte (spec_tape_bytes P) encoder_init) \<and>
     write_byte b s = fold spec_symbol (spec_bits_msb_first b) s \<and>
     length (frames (spec_symbol bt s)) = length (frames s) + 32 \<and>
     length (frames (fold write_byte (spec_tape_bytes P) encoder_init)) =
       (768 + 1 + 1 + 1 + 2 * (8 + 1 + 64 + 1)) * 8 * 32"
proof (intro conjI)
  assume len: "length P = 64"
  show "nrecords_of (pad_data P) = 1"
    by (simp add: pad_data_def nrecords_of_def len)
  show "encode P = Inr (fold write_byte (spec_tape_bytes P) encoder_init)"
    by (rule encode_one_record [OF len])
  show "write_byte b s = fold spec_symbol (spec_bits_msb_first b) s"
    by (rule write_byte_bits)
  show "length (frames (spec_symbol bt s)) = length (frames s) + 32"
    by (simp add: spec_symbol_def Let_def)
  have "length (frames encoder_init) = 0"
    by (simp add: encoder_init_def)
  then have "length (frames (fold write_byte (spec_tape_bytes P) encoder_init)) = 256 * 919"
    by (simp only: write_bytes_length spec_tape_bytes_length [OF len] add_0)
  also have "(256 :: nat) * 919 = (768 + 1 + 1 + 1 + 2 * (8 + 1 + 64 + 1)) * 8 * 32"
    by simp
  finally show "length (frames (fold write_byte (spec_tape_bytes P) encoder_init)) =
       (768 + 1 + 1 + 1 + 2 * (8 + 1 + 64 + 1)) * 8 * 32" .
qed

theorem encode_64_byte_payload_witness:
  "length (replicate 64 (0x01 :: byte)) = 64 \<and>
   encode (replicate 64 0x01) =
     Inr (fold write_byte (spec_tape_bytes (replicate 64 0x01)) encoder_init) \<and>
   length (frames (fold write_byte (spec_tape_bytes (replicate 64 0x01)) encoder_init)) = 235264"
proof -
  have h: "length (replicate 64 (0x01 :: byte)) = 64" by simp
  note t = encode_64_byte_payload [OF h, of 0 encoder_init True]
  from t have a: "encode (replicate 64 0x01) =
     Inr (fold write_byte (spec_tape_bytes (replicate 64 0x01)) encoder_init)"
    by (elim conjE)
  from t have "length (frames (fold write_byte (spec_tape_bytes (replicate 64 0x01)) encoder_init)) =
       (768 + 1 + 1 + 1 + 2 * (8 + 1 + 64 + 1)) * 8 * 32"
    by (elim conjE)
  also have "((768 :: nat) + 1 + 1 + 1 + 2 * (8 + 1 + 64 + 1)) * 8 * 32 = 235264" by simp
  finally show ?thesis using h a by (intro conjI)
qed

section \<open>Properties of the BASIC lister\<close>

lemma range_step4_nonpos: "n \<le> 0 \<Longrightarrow> range_step4 n = []"
  by (simp add: range_step4_def)

text \<open>
  C9 as stated fails: a line-table length of zero, or a negative multiple of 4, passes
  both checks of \<open>parse_line_table\<close>, the loop over \<open>range(0, lt_len, 4)\<close> does not
  run, and the empty table is returned.
\<close>

theorem line_table_length_counterexample:
  "parse_header image_empty_table =
     Inr (Some \<lparr> chkword = 0x000f, line_table_start = 0x37f7,
                  line_table_end = 0x37f8, memory_end = 0 \<rparr>) \<and>
   (0x37f7 :: int) + 1 - 0x37f8 = 0 \<and>
   parse_line_table image_empty_table
     \<lparr> chkword = 0x000f, line_table_start = 0x37f7,
       line_table_end = 0x37f8, memory_end = 0 \<rparr> = Inr [] \<and>
   parse_header image_negative_table =
     Inr (Some \<lparr> chkword = 0x000b, line_table_start = 0x37f7,
                  line_table_end = 0x37fc, memory_end = 0 \<rparr>) \<and>
   (0x37f7 :: int) + 1 - 0x37fc = - 4 \<and>
   parse_line_table image_negative_table
     \<lparr> chkword = 0x000b, line_table_start = 0x37f7,
       line_table_end = 0x37fc, memory_end = 0 \<rparr> = Inr []"
  by (simp add: image_empty_table_def image_negative_table_def parse_header_def
      parse_line_table_def struct_unpack_from_def be16_def HDR_LEN_def Let_def
      range_step4_nonpos)

text \<open>
  C9, amended.  With \<open>lt_len = line_table_start + 1 - line_table_end\<close>: when \<open>lt_len\<close>
  is not a multiple of 4, \<open>parse_line_table\<close> ends in \<open>exit(1)\<close> and produces no table;
  when \<open>lt_len\<close> is zero or a negative multiple of 4 (and the image holds its eight
  header bytes), it returns the empty table.
\<close>

theorem line_table_length_multiple_of_4:
  "((line_table_start header + 1 - line_table_end header) mod 4 \<noteq> 0 \<longrightarrow>
     parse_line_table data header = Inl (Exit 1)) \<and>
   ((line_table_start header + 1 - line_table_end header) mod 4 = 0 \<and>
    line_table_start header + 1 - line_table_end header \<le> 0 \<and>
    8 \<le> length data \<longrightarrow>
     parse_line_table data header = Inr [])"
  by (simp add: parse_line_table_def Let_def HDR_LEN_def range_step4_nonpos)

theorem line_table_length_multiple_of_4_witness:
  "parse_line_table image_empty_table
     \<lparr> chkword = 0x000f, line_table_start = 0x37f7,
       line_table_end = 0x37f6, memory_end = 0 \<rparr> = Inl (Exit 1) \<and>
   parse_line_table image_empty_table
     \<lparr> chkword = 0x000f, line_table_start = 0x37f7,
       line_table_end = 0x37f8, memory_end = 0 \<rparr> = Inr []"
  using
    line_table_length_multiple_of_4 [of
      "\<lparr> chkword = 0x000f, line_table_start = 0x37f7,
         line_table_end = 0x37f6, memory_end = 0 \<rparr>" image_empty_table]
    line_table_length_multiple_of_4 [of
      "\<lparr> chkword = 0x000f, line_table_start = 0x37f7,
         line_table_end = 0x37f8, memory_end = 0 \<rparr>" image_empty_table]
  by (simp add: image_empty_table_def)

lemma list_lines_append_failure:
  "list_lines data lt before = (out, None) \<Longrightarrow>
   map_of lt number = Some addr \<Longrightarrow>
   decode_line data addr = Inl e \<Longrightarrow>
   list_lines data lt (before @ number # rest) = (out, Some e)"
proof (induction before arbitrary: out)
  case Nil
  then show ?case by simp
next
  case (Cons k ks)
  from Cons.prems(1) obtain a body where a: "map_of lt k = Some a"
    and b: "decode_line data a = Inr body"
    by (auto split: option.splits sum.splits)
  from Cons.prems(1) a b have tl: "list_lines data lt ks = (tl out, None)"
    and hd: "out = format_line k body # tl out"
    by (auto simp add: Let_def prod_eq_iff split: prod.splits)
  from tl Cons.prems(2,3) have "list_lines data lt (ks @ number # rest) = (tl out, Some e)"
    by (rule Cons.IH)
  with a b hd show ?case by (simp add: Let_def)
qed

lemma list_lines_length:
  "list_lines data lt numbers = (out, None) \<Longrightarrow> length out = length numbers"
proof (induction numbers arbitrary: out)
  case Nil
  then show ?case by simp
next
  case (Cons k ks)
  from Cons.prems obtain a body where a: "map_of lt k = Some a"
    and b: "decode_line data a = Inr body"
    by (auto split: option.splits sum.splits)
  from Cons.prems a b have tl: "list_lines data lt ks = (tl out, None)"
    and hd: "out = format_line k body # tl out"
    by (auto simp add: Let_def prod_eq_iff split: prod.splits)
  from tl have "length (tl out) = length ks" by (rule Cons.IH)
  with hd show ?case by (metis length_Cons)
qed

lemma decode_loop_invalid_token:
  assumes "off < line_len" and "py_index data (addr + off) = Inr token"
    and "map_of TOKEN_TEXT token = None"
    and "token \<noteq> 0xc7" and "token \<noteq> 0xc8" and "token \<noteq> 0xc9"
    and "\<not> is_ident_start token"
  shows "decode_loop data addr line_len off line = Inl AttributeError"
proof -
  from assms have "decode_token data addr line_len off line = Inl AttributeError"
    by (simp add: decode_token_def Let_def)
  with assms(1) show ?thesis
    by (simp add: decode_loop.simps [of data addr line_len off line])
qed

text \<open>
  C5 as stated fails: in \<open>image_bad_line_10\<close> the byte \<open>0xff\<close> in line 10 is neither a
  token nor an identifier character.  Line 20 decodes to \<open>END\<close> when decoded by itself,
  but the listing prints no line at all: the exception of line 10 leaves the loop.  The
  exception is moreover not the Invalid-Token one.
\<close>

theorem invalid_token_counterexample:
  "parse_line_table image_bad_line_10
     \<lparr> chkword = 0x0007, line_table_start = 0x37f7,
       line_table_end = 0x37f0, memory_end = 0 \<rparr> = Inr [(20, 19), (10, 16)] \<and>
   decode_line image_bad_line_10 19 = Inr ''END '' \<and>
   decode_line image_bad_line_10 16 = Inl AttributeError \<and>
   list_basic image_bad_line_10 = ([], Some AttributeError)"
  by code_simp

text \<open>
  C5, amended.  A byte that is neither a token nor an identifier character makes the
  decoding of its line fail with an exception (as the script stands, the
  \<open>AttributeError\<close> of the diagnostic that precedes the \<open>raise\<close>), and the listing
  loop has no handler: whatever exception a line raises, the lines sorted before the
  failing line have been listed, the failing line and every line after it are not, and
  the listing ends with the line's exception.
\<close>

theorem listing_stops_at_failing_line:
  "(off < line_len \<and> py_index data (addr + off) = Inr token \<and>
    map_of TOKEN_TEXT token = None \<and>
    token \<noteq> 0xc7 \<and> token \<noteq> 0xc8 \<and> token \<noteq> 0xc9 \<and> \<not> is_ident_start token \<longrightarrow>
      decode_loop data addr line_len off line = Inl AttributeError) \<and>
   (list_lines data lt before = (out, None) \<and>
    map_of lt number = Some a \<and> decode_line data a = Inl e \<longrightarrow>
      list_lines data lt (before @ number # rest) = (out, Some e) \<and>
      length out = length before)"
  using decode_loop_invalid_token [of off line_len data addr token line]
    list_lines_append_failure [of data lt before out number a e rest]
    list_lines_length [of data lt before out]
  by blast

theorem listing_stops_at_failing_line_witness:
  "list_lines image_bad_line_20 [(30, 26), (20, 23), (10, 20)] [10] = ([''   10 END ''], None) \<and>
   decode_line image_bad_line_20 23 = Inl AttributeError \<and>
   decode_loop image_bad_line_20 23 2 1 [] = Inl AttributeError \<and>
   list_lines image_bad_line_20 [(30, 26), (20, 23), (10, 20)] ([10] @ 20 # [30]) =
     ([''   10 END ''], Some AttributeError) \<and>
   list_basic image_bad_line_20 = ([''   10 END ''], Some AttributeError)"
proof -
  have whole: "list_basic image_bad_line_20 = ([''   10 END ''], Some AttributeError)"
    by code_simp
  have before: "list_lines image_bad_line_20 [(30, 26), (20, 23), (10, 20)] [10] =
      ([''   10 END ''], None)"
    by code_simp
  have fails: "decode_line image_bad_line_20 23 = Inl AttributeError"
    by code_simp
  have tok: "py_index image_bad_line_20 (23 + 1) = Inr 0xff"
    by code_simp
  have unknown: "map_of TOKEN_TEXT (0xff :: int) = None"
    by code_simp
  have noident: "\<not> is_ident_start 0xff"
    by (simp add: is_ident_start_def)
  have addr: "map_of [(30, 26), (20, 23), (10 :: int, 20 :: int)] 20 = Some 23"
    by simp
  from listing_stops_at_failing_line [of 1 2 image_bad_line_20 23 "0xff" "[]"
      "[(30, 26), (20, 23), (10, 20)]" "[10]" "[''   10 END '']" 20 23 AttributeError "[30]"]
    before fails tok unknown noident addr whole
  show ?thesis by simp
qed

section \<open>Properties of the signal layer\<close>

text \<open>
  C8.  A call of \<open>process_sample\<close> hands at most one edge to the bit layer: an edge to
  level 1 exactly when the level is 0 and the sample exceeds
  \<open>threshold + (dyn_range / 2) * hysteresis\<close>, an edge to level 0 exactly when the level
  is 1 and the sample is below \<open>threshold - (dyn_range / 2) * hysteresis\<close>, and no edge
  otherwise; the level after the call is the edge's new level, and the old level when
  there was no edge.
\<close>

theorem process_sample_edge_detection:
  "fst (process_sample cfg sample s) =
     (if sp_level s = 0 \<and>
         of_int sample > threshold_of cfg sample s + (dyn_range_of cfg sample s / 2) * hysteresis cfg
      then [(sp_frame_idx s, snd (track_peak sample s), 1)]
      else if sp_level s = 1 \<and>
         of_int sample < threshold_of cfg sample s - (dyn_range_of cfg sample s / 2) * hysteresis cfg
      then [(sp_frame_idx s, snd (track_peak sample s), 0)]
      else []) \<and>
   length (fst (process_sample cfg sample s)) \<le> 1 \<and>
   sp_level (snd (process_sample cfg sample s)) =
     (case fst (process_sample cfg sample s) of
        [] \<Rightarrow> sp_level s
      | e # _ \<Rightarrow> snd (snd e))"
  by (simp add: process_sample_def detect_edge_def Let_def)

text \<open>
  C7 as stated fails.  After the samples 100 and 1000 from the initial state (profile
  \<open>peak1\<close>) the second sample is an edge to level 1, handed over with peak index 0; after
  the call the tracked peak is still 0 and its index still 0, not the sample 1000 and
  the index 1.
\<close>

theorem edge_peak_reset_counterexample:
  "fst (process_sample profile_peak1 1000 (snd (process_sample profile_peak1 100 SignalProc_init))) =
     [(1, 0, 1)] \<and>
   sp_peak (snd (process_sample profile_peak1 1000
     (snd (process_sample profile_peak1 100 SignalProc_init)))) = 0 \<and>
   sp_peak_idx (snd (process_sample profile_peak1 1000
     (snd (process_sample profile_peak1 100 SignalProc_init)))) = 0 \<and>
   sp_frame_idx (snd (process_sample profile_peak1 100 SignalProc_init)) = 1"
  by (simp add: process_sample_def detect_edge_def track_peak_def threshold_of_def
      dyn_range_of_def new_range_max_def new_range_min_def profile_peak1_def
      SignalProc_init_def Let_def)

text \<open>
  C7, amended.  When \<open>process_sample\<close> detects an edge, the edge is handed over with
  the current sample index, the peak index as the peak detection step of this sample
  left it, and the new level.  The edge does not reset the tracked peak: after the call
  the peak and its index are the sample and the sample index only if the sample passed
  the old peak in the direction of the old level, and are unchanged otherwise.
\<close>

theorem edge_carries_peak_without_reset:
  "fst (process_sample cfg sample s) \<noteq> [] \<Longrightarrow>
     fst (process_sample cfg sample s) =
       [(sp_frame_idx s,
         sp_peak_idx (snd (process_sample cfg sample s)),
         sp_level (snd (process_sample cfg sample s)))] \<and>
     sp_peak (snd (process_sample cfg sample s)) =
       (if (sp_level s = 1 \<and> sample > sp_peak s) \<or> (sp_level s = 0 \<and> sample < sp_peak s)
        then sample else sp_peak s) \<and>
     sp_peak_idx (snd (process_sample cfg sample s)) =
       (if (sp_level s = 1 \<and> sample > sp_peak s) \<or> (sp_level s = 0 \<and> sample < sp_peak s)
        then sp_frame_idx s else sp_peak_idx s)"
  by (simp add: process_sample_def track_peak_def Let_def split: if_splits)

theorem edge_carries_peak_without_reset_witness:
  "fst (process_sample profile_peak1 1000
          \<lparr> sp_frame_idx = 1, sp_range_max = 100, sp_range_min = 100, sp_idle = True,
            sp_level = 0, sp_peak = 0, sp_peak_idx = 0 \<rparr>) = [(1, 0, 1)] \<and>
   sp_peak (snd (process_sample profile_peak1 1000
          \<lparr> sp_frame_idx = 1, sp_range_max = 100, sp_range_min = 100, sp_idle = True,
            sp_level = 0, sp_peak = 0, sp_peak_idx = 0 \<rparr>)) = 0 \<and>
   sp_peak_idx (snd (process_sample profile_peak1 1000
          \<lparr> sp_frame_idx = 1, sp_range_max = 100, sp_range_min = 100, sp_idle = True,
            sp_level = 0, sp_peak = 0, sp_peak_idx = 0 \<rparr>)) = 0"
proof -
  have edge: "fst (process_sample profile_peak1 1000
          \<lparr> sp_frame_idx = 1, sp_range_max = 100, sp_range_min = 100, sp_idle = True,
            sp_level = 0, sp_peak = 0, sp_peak_idx = 0 \<rparr>) \<noteq> []"
    by (simp add: process_sample_def detect_edge_def threshold_of_def
      dyn_range_of_def new_range_max_def new_range_min_def profile_peak1_def Let_def)
  have lvl: "sp_level (snd (process_sample profile_peak1 1000
          \<lparr> sp_frame_idx = 1, sp_range_max = 100, sp_range_min = 100, sp_idle = True,
            sp_level = 0, sp_peak = 0, sp_peak_idx = 0 \<rparr>)) = 1"
    by (simp add: process_sample_def detect_edge_def threshold_of_def
      dyn_range_of_def new_range_max_def new_range_min_def profile_peak1_def Let_def)
  from edge_carries_peak_without_reset [OF edge] lvl show ?thesis by simp
qed

section \<open>Properties of the record layer and the bit layer\<close>

lemma header_first_byte:
  "dp_read_header d \<Longrightarrow> dp_buf d = [] \<Longrightarrow>
   process_byte b1 m1 d =
     Inr (None, d \<lparr> dp_buf := [b1], dp_buf_error_mask := dp_buf_error_mask d @ [m1] \<rparr>)"
  by (simp add: process_byte_def process_header_def Let_def)

lemma header_second_byte:
  "dp_read_header d \<Longrightarrow> dp_buf d = [b1] \<Longrightarrow>
   process_byte b2 m2 d =
     (if b1 \<noteq> b2 then Inr (Some NOTIFY_DONE, dp_clear_state d)
      else Inr (Some REQUEST_RESYNC,
                d \<lparr> dp_buf_error_mask := dp_buf_error_mask d @ [m2],
                    dp_rec_cnt := uint b1, dp_rec_idx := 0,
                    dp_read_header := False, dp_buf := [] \<rparr>))"
  by (simp add: process_byte_def process_header_def dp_clear_state_def Let_def)

lemma deliver_byte_done:
  "process_byte (word_of_int (bp_byte s)) (word_of_int (bp_bit_error_mask s)) (bp_data_proc s) =
     Inr (Some NOTIFY_DONE, dp) \<Longrightarrow>
   deliver_byte frame_idx recurse s =
     Inr (False, (bp_clear_state s) \<lparr> bp_data_proc := dp \<rparr>)"
  by (simp add: deliver_byte_def bp_clear_state_def Let_def)

lemma active_emit_done:
  assumes "bp_bit_cnt s = 7"
    and "process_byte (word_of_int ((push_bit 1 (bp_byte s) OR bt) AND 0xff))
           (word_of_int ((push_bit 1 (bp_bit_error_mask s) OR bit_error) AND 0xff))
           (bp_data_proc s) = Inr (Some NOTIFY_DONE, dp)"
  shows "active_emit cfg frame_idx expected_idx bt bit_error recurse s =
     Inr (False, (bp_clear_state s)
             \<lparr> bp_data_proc := dp,
               bp_training_start := (if continues_resync cfg then frame_idx else 0) \<rparr>)"
proof -
  let ?s1 = "s \<lparr> bp_edge_cnt := bp_edge_cnt s + 1,
                  bp_byte := (push_bit 1 (bp_byte s) OR bt) AND 0xff,
                  bp_bit_error_mask := (push_bit 1 (bp_bit_error_mask s) OR bit_error) AND 0xff,
                  bp_bit_cnt := bp_bit_cnt s + 1 \<rparr>"
  have "deliver_byte frame_idx recurse ?s1 =
      Inr (False, (bp_clear_state ?s1) \<lparr> bp_data_proc := dp \<rparr>)"
    by (rule deliver_byte_done) (use assms(2) in simp)
  moreover have "bp_bit_cnt ?s1 = 8" using assms(1) by simp
  ultimately show ?thesis
    by (simp add: active_emit_def Let_def bp_clear_state_def del: push_bit_eq_mult)
qed

text \<open>
  C4.  In the header phase \<open>process_byte\<close> collects two bytes: the first returns
  nothing.  If the second differs from the first, the state is cleared (no data, no file
  written) and \<open>NOTIFY_DONE\<close> is returned; if they are equal, their value becomes
  \<open>rec_cnt\<close>, the header phase ends and \<open>REQUEST_RESYNC\<close> is returned.  When the bit
  that completes the second, unequal header byte is produced in the active phase, the
  bit layer clears its state on \<open>NOTIFY_DONE\<close>, is back in training, and does not
  recurse; only \<open>training_start\<close> is then set to the current frame under continuous
  resync.
\<close>

theorem header_two_bytes:
  "(dp_read_header d \<and> dp_buf d = [] \<longrightarrow>
      process_byte b1 m1 d =
        Inr (None, d \<lparr> dp_buf := [b1], dp_buf_error_mask := dp_buf_error_mask d @ [m1] \<rparr>) \<and>
      (b1 \<noteq> b2 \<longrightarrow>
         process_byte b2 m2
           (d \<lparr> dp_buf := [b1], dp_buf_error_mask := dp_buf_error_mask d @ [m1] \<rparr>) =
           Inr (Some NOTIFY_DONE, dp_clear_state d) \<and>
         dp_data (dp_clear_state d) = [] \<and> dp_read_header (dp_clear_state d) \<and>
         dp_written (dp_clear_state d) = dp_written d) \<and>
      (b1 = b2 \<longrightarrow>
         process_byte b2 m2
           (d \<lparr> dp_buf := [b1], dp_buf_error_mask := dp_buf_error_mask d @ [m1] \<rparr>) =
           Inr (Some REQUEST_RESYNC,
                d \<lparr> dp_buf_error_mask := dp_buf_error_mask d @ [m1, m2],
                    dp_rec_cnt := uint b1, dp_rec_idx := 0,
                    dp_read_header := False, dp_buf := [] \<rparr>))) \<and>
   (bp_bit_cnt s = 7 \<and>
    dp_read_header (bp_data_proc s) \<and> dp_buf (bp_data_proc s) = [b1] \<and>
    (word_of_int ((push_bit 1 (bp_byte s) OR
        (if bp_edges_within_symbol s mod 2 = 1 then 1 else 0)) AND 0xff) :: byte) \<noteq> b1 \<and>
    \<not> (frame_idx < expected_idx_of s \<and>
       \<not> \<bar>of_int (frame_idx - expected_idx_of s)\<bar> < bp_symbol_len s * max_bit_diff cfg) \<longrightarrow>
      process_symbol_active cfg (Suc depth) frame_idx level_len s =
        Inr ((bp_clear_state s)
               \<lparr> bp_data_proc := dp_clear_state (bp_data_proc s),
                 bp_training_start := (if continues_resync cfg then frame_idx else 0) \<rparr>) \<and>
      bp_training ((bp_clear_state s)
               \<lparr> bp_data_proc := dp_clear_state (bp_data_proc s),
                 bp_training_start := (if continues_resync cfg then frame_idx else 0) \<rparr>))"
proof (intro conjI impI)
  assume h: "dp_read_header d \<and> dp_buf d = []"
  let ?d1 = "d \<lparr> dp_buf := [b1], dp_buf_error_mask := dp_buf_error_mask d @ [m1] \<rparr>"
  from h show "process_byte b1 m1 d = Inr (None, ?d1)"
    by (simp add: header_first_byte)
  have d1: "dp_read_header ?d1" "dp_buf ?d1 = [b1]" using h by simp_all
  have clr: "dp_clear_state ?d1 = dp_clear_state d" by (simp add: dp_clear_state_def)
  {
    assume "b1 \<noteq> b2"
    then show "process_byte b2 m2 ?d1 = Inr (Some NOTIFY_DONE, dp_clear_state d)"
      using header_second_byte [OF d1, of b2 m2] clr by simp
  }
  {
    assume "b1 = b2"
    then show "process_byte b2 m2 ?d1 =
           Inr (Some REQUEST_RESYNC,
                d \<lparr> dp_buf_error_mask := dp_buf_error_mask d @ [m1, m2],
                    dp_rec_cnt := uint b1, dp_rec_idx := 0,
                    dp_read_header := False, dp_buf := [] \<rparr>)"
      using header_second_byte [OF d1, of b2 m2] by simp
  }
  show "dp_data (dp_clear_state d) = []" by (simp add: dp_clear_state_def)
  show "dp_read_header (dp_clear_state d)" by (simp add: dp_clear_state_def)
  show "dp_written (dp_clear_state d) = dp_written d" by (simp add: dp_clear_state_def)
next
  let ?bt = "if bp_edges_within_symbol s mod 2 = 1 then 1 else 0 :: int"
  let ?s' = "(bp_clear_state s)
               \<lparr> bp_data_proc := dp_clear_state (bp_data_proc s),
                 bp_training_start := (if continues_resync cfg then frame_idx else 0) \<rparr>"
  assume h: "bp_bit_cnt s = 7 \<and>
    dp_read_header (bp_data_proc s) \<and> dp_buf (bp_data_proc s) = [b1] \<and>
    (word_of_int ((push_bit 1 (bp_byte s) OR ?bt) AND 0xff) :: byte) \<noteq> b1 \<and>
    \<not> (frame_idx < expected_idx_of s \<and>
       \<not> \<bar>of_int (frame_idx - expected_idx_of s)\<bar> < bp_symbol_len s * max_bit_diff cfg)"
  let ?s0 = "s \<lparr> bp_edges_within_symbol := 0 \<rparr>"
  let ?e = "expected_idx_of s"
  have pb: "process_byte (word_of_int ((push_bit 1 (bp_byte ?s0) OR ?bt) AND 0xff))
           (word_of_int ((push_bit 1 (bp_bit_error_mask ?s0) OR bit_error) AND 0xff))
           (bp_data_proc ?s0) = Inr (Some NOTIFY_DONE, dp_clear_state (bp_data_proc s))"
    for bit_error
  proof -
    define v :: byte where "v = word_of_int ((push_bit 1 (bp_byte s) OR ?bt) AND 0xff)"
    have "b1 \<noteq> v" using h unfolding v_def by blast
    with h have pbv: "process_byte v m (bp_data_proc s) =
        Inr (Some NOTIFY_DONE, dp_clear_state (bp_data_proc s))" for m
      using header_second_byte [of "bp_data_proc s" b1 v m] by simp
    have sel: "bp_byte ?s0 = bp_byte s" "bp_bit_error_mask ?s0 = bp_bit_error_mask s"
      "bp_data_proc ?s0 = bp_data_proc s"
      by simp_all
    show ?thesis by (simp only: sel pbv [unfolded v_def])
  qed
  have cnt: "bp_bit_cnt ?s0 = 7" using h by simp
  have clr: "(bp_clear_state ?s0)
             \<lparr> bp_data_proc := dp_clear_state (bp_data_proc s),
               bp_training_start := (if continues_resync cfg then frame_idx else 0) \<rparr> = ?s'"
    by (simp add: bp_clear_state_def)
  have emit: "active_emit cfg frame_idx ?e ?bt bit_error recurse ?s0 = Inr (False, ?s')"
    for bit_error recurse
    using active_emit_done [OF cnt pb [of bit_error], where cfg = cfg
        and frame_idx = frame_idx and expected_idx = ?e and recurse = recurse]
    by (simp only: clr)
  have "active_step cfg frame_idx s = Inr (False, ?s')"
  proof (cases "\<bar>of_int (frame_idx - ?e)\<bar> < bp_symbol_len s * max_bit_diff cfg")
    case True
    then have "active_step cfg frame_idx s = active_emit cfg frame_idx ?e ?bt 0 False ?s0"
      by (simp add: active_step_def Let_def split del: if_split)
    then show ?thesis by (simp only: emit)
  next
    case False
    with h have "\<not> frame_idx < ?e" by blast
    with False have "active_step cfg frame_idx s = active_emit cfg frame_idx ?e ?bt 1 True ?s0"
      by (simp add: active_step_def Let_def split del: if_split)
    then show ?thesis by (simp only: emit)
  qed
  then show "process_symbol_active cfg (Suc depth) frame_idx level_len s = Inr ?s'"
    by simp
  show "bp_training ?s'" by (simp add: bp_clear_state_def)
qed

theorem header_two_bytes_witness:
  "process_byte 0x03 0x00 DataProc_init =
     Inr (None, DataProc_init \<lparr> dp_buf := [0x03],
            dp_buf_error_mask := dp_buf_error_mask DataProc_init @ [0x00] \<rparr>) \<and>
   process_byte 0x04 0x00
     (DataProc_init \<lparr> dp_buf := [0x03],
        dp_buf_error_mask := dp_buf_error_mask DataProc_init @ [0x00] \<rparr>) =
     Inr (Some NOTIFY_DONE, dp_clear_state DataProc_init) \<and>
   process_byte 0x03 0x00
     (DataProc_init \<lparr> dp_buf := [0x03],
        dp_buf_error_mask := dp_buf_error_mask DataProc_init @ [0x00] \<rparr>) =
     Inr (Some REQUEST_RESYNC,
          DataProc_init \<lparr> dp_buf_error_mask := dp_buf_error_mask DataProc_init @ [0x00, 0x00],
            dp_rec_cnt := uint (0x03 :: byte), dp_rec_idx := 0,
            dp_read_header := False, dp_buf := [] \<rparr>) \<and>
   process_symbol_active profile_peak1 (Suc 0) 32 32 bp_before_second_header_byte =
     Inr ((bp_clear_state bp_before_second_header_byte)
            \<lparr> bp_data_proc := dp_clear_state (bp_data_proc bp_before_second_header_byte),
              bp_training_start := (if continues_resync profile_peak1 then 32 else 0) \<rparr>)"
proof -
  have init: "dp_read_header DataProc_init \<and> dp_buf DataProc_init = []"
    by (simp add: DataProc_init_def)
  have ne: "(0x03 :: byte) \<noteq> 0x04" by simp
  have e: "expected_idx_of bp_before_second_header_byte = 32"
    by (simp add: expected_idx_of_def py_round_def bp_before_second_header_byte_def
        BitProc_init_def Let_def)
  have fields: "bp_bit_cnt bp_before_second_header_byte = 7"
    "dp_read_header (bp_data_proc bp_before_second_header_byte)"
    "dp_buf (bp_data_proc bp_before_second_header_byte) = [0x03]"
    "bp_byte bp_before_second_header_byte = 2"
    "bp_edges_within_symbol bp_before_second_header_byte = 0"
    "bp_symbol_len bp_before_second_header_byte = 32"
    by (simp_all add: bp_before_second_header_byte_def BitProc_init_def
        dp_after_first_header_byte_def DataProc_init_def)
  have active: "bp_bit_cnt bp_before_second_header_byte = 7 \<and>
    dp_read_header (bp_data_proc bp_before_second_header_byte) \<and>
    dp_buf (bp_data_proc bp_before_second_header_byte) = [0x03] \<and>
    (word_of_int ((push_bit 1 (bp_byte bp_before_second_header_byte) OR
        (if bp_edges_within_symbol bp_before_second_header_byte mod 2 = 1 then 1 else 0))
        AND 0xff) :: byte) \<noteq> 0x03 \<and>
    \<not> (32 < expected_idx_of bp_before_second_header_byte \<and>
       \<not> \<bar>of_int (32 - expected_idx_of bp_before_second_header_byte)\<bar>
           < bp_symbol_len bp_before_second_header_byte * max_bit_diff profile_peak1)"
    by (simp add: fields e profile_peak1_def)
  note unequal = header_two_bytes [where d = DataProc_init and ?b1.0 = "0x03" and ?b2.0 = "0x04"
      and ?m1.0 = "0x00" and ?m2.0 = "0x00" and s = bp_before_second_header_byte
      and frame_idx = 32 and cfg = profile_peak1 and depth = 0 and level_len = 32]
  note equal = header_two_bytes [where d = DataProc_init and ?b1.0 = "0x03" and ?b2.0 = "0x03"
      and ?m1.0 = "0x00" and ?m2.0 = "0x00" and s = bp_before_second_header_byte
      and frame_idx = 32 and cfg = profile_peak1 and depth = 0 and level_len = 32]
  from unequal equal init ne active show ?thesis by blast
qed

text \<open>
  C2, the failing input.  Both copies of the record fail the checksum, their error masks
  are disjoint at every position, and the bytewise OR of the two copies is the true
  record, whose checksum is valid: the claim has the reconstructed payload appended.
  The code instead ends in \<open>NameError\<close> when the last byte of the secondary copy
  arrives: \<open>__recover_record\<close> is called and reaches its \<open>xrange\<close>.  Nothing is
  appended, no file is written, and the program is not marked corrupt either.
\<close>

theorem reconstruction_raises_name_error:
  "\<not> verify_record (DataProc_init \<lparr> dp_buf := map fst tape_copy_a \<rparr>) \<and>
   \<not> verify_record (DataProc_init \<lparr> dp_buf := map fst tape_copy_b \<rparr>) \<and>
   map2 (\<lambda>m1 m2. m1 AND m2) (map snd tape_copy_a) (map snd tape_copy_b) = replicate 65 0x00 \<and>
   map2 (\<lambda>b1 b2. b1 OR b2) (map fst tape_copy_a) (map fst tape_copy_b) =
     replicate 64 0xff @ [0xc0] \<and>
   verify_record (DataProc_init \<lparr> dp_buf := replicate 64 0xff @ [0xc0] \<rparr>) \<and>
   (case process_bytes (tape_header @ tape_copy_a @ butlast tape_copy_b) DataProc_init of
      Inl e \<Rightarrow> False
    | Inr d \<Rightarrow>
        dp_data d = [] \<and> dp_written d = [] \<and> \<not> dp_data_corrupt d \<and>
        process_byte 0xc0 0x00 d = Inl NameError) \<and>
   process_bytes (tape_header @ tape_copy_a @ tape_copy_b) DataProc_init = Inl NameError"
  by code_simp

text \<open>
  C3, the failing input.  In the active phase, with one edge already counted inside the
  current symbol, an edge that comes a symbol late takes the missed-symbol branch: the
  synthesized bit is the parity of \<open>edges_within_symbol\<close>, here 1, and its error bit is
  1.  It completes a byte, and the record layer receives the value \<open>0x01\<close> with the
  error mask \<open>0x01\<close>: the flagged bit is set in the value.
\<close>

theorem missed_symbol_bit_is_edge_parity:
  "(case active_step profile_peak1 48 bp_edge_within_symbol of
      Inl e \<Rightarrow> False
    | Inr (recurse, s) \<Rightarrow> recurse \<and> bp_bit_error_mask s = 1 \<and>
        dp_buf (bp_data_proc s) = [0x01] \<and> dp_buf_error_mask (bp_data_proc s) = [0x01]) \<and>
   (case process_symbol_active profile_peak1 1000 48 32 bp_edge_within_symbol of
      Inl e \<Rightarrow> False
    | Inr s \<Rightarrow>
        dp_buf (bp_data_proc s) = [0x01] \<and> dp_buf_error_mask (bp_data_proc s) = [0x01] \<and>
        (0x01 :: byte) AND 0x01 \<noteq> 0)"
proof -
  have pb: "process_byte 0x01 0x01 dp_in_record =
      Inr (None, dp_in_record \<lparr> dp_buf := [0x01], dp_buf_error_mask := [0x01] \<rparr>)"
    by (simp add: process_byte_def dp_in_record_def DataProc_init_def Let_def
        RECORD_LEN_def CHKSUM_LEN_def)
  let ?s1 = "bp_edge_within_symbol
      \<lparr> bp_edges_within_symbol := 0, bp_edge_cnt := 0, bp_byte := 0,
        bp_bit_error_mask := 1, bp_bit_cnt := 0,
        bp_data_proc := dp_in_record \<lparr> dp_buf := [0x01], dp_buf_error_mask := [0x01] \<rparr>,
        bp_training_start := 32 \<rparr>"
  have step1: "active_step profile_peak1 48 bp_edge_within_symbol = Inr (True, ?s1)"
    by (simp add: active_step_def expected_idx_of_def py_round_def active_emit_def
        deliver_byte_def pb Let_def
        bp_edge_within_symbol_def BitProc_init_def profile_peak1_def)
  have step2: "active_step profile_peak1 48 ?s1 =
      Inr (False, ?s1 \<lparr> bp_edges_within_symbol := 1 \<rparr>)"
    by (simp add: active_step_def expected_idx_of_def py_round_def Let_def
        bp_edge_within_symbol_def BitProc_init_def profile_peak1_def)
  have "process_symbol_active profile_peak1 (Suc (Suc 998)) 48 32 bp_edge_within_symbol =
      Inr (?s1 \<lparr> bp_edges_within_symbol := 1 \<rparr>)"
    by (simp only: process_symbol_active.simps step1 step2 sum.case prod.case if_True if_False)
  moreover have "Suc (Suc 998) = 1000" by simp
  ultimately have run: "process_symbol_active profile_peak1 1000 48 32 bp_edge_within_symbol =
      Inr (?s1 \<lparr> bp_edges_within_symbol := 1 \<rparr>)"
    by simp
  show ?thesis
    by (simp add: step1 run)
qed

end
